theory Spec2Isabelle
  imports Main "HOL-Library.Sublist" "HOL-Library.Log_Nat" "HOL-Library.Multiset"
begin

section \<open>Text: the string primitives of the importer\<close>

text \<open>
  The importer is \<^verbatim>\<open>src/js/paysheet-importer.js\<close> (class \<^verbatim>\<open>PaysheetImporter\<close>).
  A JavaScript string is modelled as a \<^typ>\<open>string\<close>: a list of 8-bit characters, read as
  the code units U+0000 to U+00FF. A grid is a list of rows, a row a list of text cells
  (what \<^verbatim>\<open>parseCSV\<close> produces; a cell that the spreadsheet library delivers as a number is
  outside this model).
\<close>

type_synonym row = "string list"
type_synonym grid = "row list"

definition is_ws :: "char \<Rightarrow> bool" where
  \<comment> \<open>white space and line terminators, as \<^verbatim>\<open>trim\<close>, \<^verbatim>\<open>\s\<close> and \<^verbatim>\<open>parseFloat\<close> see them:
      TAB, LF, VT, FF, CR, SP and NBSP\<close>
  "is_ws c = (c = CHR 0x09 \<or> c = CHR 0x0A \<or> c = CHR 0x0B \<or> c = CHR 0x0C \<or> c = CHR 0x0D
     \<or> c = CHR 0x20 \<or> c = CHR 0xA0)"

definition trim :: "string \<Rightarrow> string" where
  "trim s = rev (dropWhile is_ws (rev (dropWhile is_ws s)))"

definition lower_char :: "char \<Rightarrow> char" where
  \<comment> \<open>A to Z (65 to 90) and the upper-case letters of U+00C0 to U+00DE (U+00D7 is the times
      sign) move 32 code units up, which sets the bit of weight 32\<close>
  "lower_char c = (let n = (of_char c :: nat) in
     if (65 \<le> n \<and> n \<le> 90) \<or> (192 \<le> n \<and> n \<le> 222 \<and> n \<noteq> 215)
     then (case c of Char b0 b1 b2 b3 b4 b5 b6 b7 \<Rightarrow> Char b0 b1 b2 b3 b4 True b6 b7)
     else c)"

definition toLowerCase :: "string \<Rightarrow> string" where
  "toLowerCase s = map lower_char s"

fun includes_str :: "string \<Rightarrow> string \<Rightarrow> bool" where
  \<comment> \<open>\<^verbatim>\<open>s.includes(p)\<close>: \<open>p\<close> occurs in \<open>s\<close> as a contiguous substring\<close>
  "includes_str [] p = (p = [])"
| "includes_str (c # s) p = (prefix p (c # s) \<or> includes_str s p)"

fun split_on :: "char \<Rightarrow> string \<Rightarrow> string list" where
  \<comment> \<open>\<^verbatim>\<open>s.split(sep)\<close> for a separator of one character\<close>
  "split_on sep [] = [[]]"
| "split_on sep (c # s) =
     (if c = sep then [] # split_on sep s
      else (case split_on sep s of [] \<Rightarrow> [[c]] | w # ws \<Rightarrow> (c # w) # ws))"

fun nat_to_string :: "nat \<Rightarrow> string" where
  \<comment> \<open>the decimal text of a row ordinal or of a record count in a template literal\<close>
  "nat_to_string n =
     (if n < 10 then [''0123456789'' ! n]
      else nat_to_string (n div 10) @ [''0123456789'' ! (n mod 10)])"

declare nat_to_string.simps [simp del]

section \<open>Numbers: IEEE 754 doubles, \<^verbatim>\<open>parseFloat\<close> and \<^verbatim>\<open>+\<close>\<close>

text \<open>
  A JavaScript number is a double. \<open>Fin q\<close> is the finite double of value \<open>q\<close>, with
  \<open>Fin 0\<close> the positive zero and \<open>NegZero\<close> the negative one. \<open>to_double\<close> rounds a
  rational to the nearest double, ties to the even significand: 53 bits of significand,
  least exponent \<open>-1022\<close> (below it the spacing stays \<open>2 powi -1074\<close>), and overflow to an
  infinity from \<open>2 powi 1024\<close> on. A decimal literal is rounded once, from its exact value.
\<close>

datatype jsnum = NaN | PosInf | NegInf | NegZero | Fin rat

definition pow2 :: "int \<Rightarrow> rat" where
  "pow2 e = (if 0 \<le> e then 2 ^ nat e else 1 / 2 ^ nat (- e))"

definition pow10 :: "int \<Rightarrow> rat" where
  "pow10 e = (if 0 \<le> e then 10 ^ nat e else 1 / 10 ^ nat (- e))"

definition floor_log2 :: "rat \<Rightarrow> int" where
  \<comment> \<open>for \<open>0 < a\<close>: the \<open>e\<close> with \<open>pow2 e \<le> a < pow2 (e + 1)\<close>\<close>
  "floor_log2 a = (case quotient_of a of (p, q) \<Rightarrow>
      let d = bitlen p - bitlen q in if pow2 d \<le> a then d else d - 1)"

definition round_half_even :: "rat \<Rightarrow> int" where
  "round_half_even x = (let f = \<lfloor>x\<rfloor>; r = x - of_int f in
      if r < 1 / 2 then f else if 1 / 2 < r then f + 1 else if even f then f else f + 1)"

definition to_double :: "rat \<Rightarrow> jsnum" where
  "to_double x = (if x = 0 then Fin 0 else
     let a = \<bar>x\<bar>;
         e = max (floor_log2 a) (- 1022);
         u = pow2 (e - 52);
         m = round_half_even (a / u);
         r = of_int m * u
     in if pow2 1024 \<le> r then (if x < 0 then NegInf else PosInf)
        else if m = 0 then (if x < 0 then NegZero else Fin 0)
        else Fin (if x < 0 then - r else r))"

fun js_add :: "jsnum \<Rightarrow> jsnum \<Rightarrow> jsnum" where
  \<comment> \<open>the \<^verbatim>\<open>+\<close> of two numbers\<close>
  "js_add NaN y = NaN"
| "js_add x NaN = NaN"
| "js_add PosInf NegInf = NaN"
| "js_add NegInf PosInf = NaN"
| "js_add PosInf y = PosInf"
| "js_add x PosInf = PosInf"
| "js_add NegInf y = NegInf"
| "js_add x NegInf = NegInf"
| "js_add NegZero y = y"
| "js_add x NegZero = x"
| "js_add (Fin a) (Fin b) = to_double (a + b)"

definition is_digit :: "char \<Rightarrow> bool" where
  "is_digit c = (c \<in> set ''0123456789'')"

definition digit_val :: "char \<Rightarrow> nat" where
  \<comment> \<open>the place of a digit among the ten digits\<close>
  "digit_val c = length (takeWhile (\<lambda>d. d \<noteq> c) ''0123456789'')"

definition digits_val :: "string \<Rightarrow> nat" where
  "digits_val ds = foldl (\<lambda>a c. 10 * a + digit_val c) 0 ds"

definition exp_digits :: "int \<Rightarrow> string \<Rightarrow> int" where
  \<comment> \<open>the digits of an exponent part; with no digit there is no exponent part\<close>
  "exp_digits sg r = (let ds = takeWhile is_digit r in
     if ds = [] then 0 else sg * int (digits_val ds))"

definition parse_exponent :: "string \<Rightarrow> int" where
  \<comment> \<open>the value of the exponent part that starts the text, 0 when none does\<close>
  "parse_exponent r = (case r of
       [] \<Rightarrow> 0
     | c # r1 \<Rightarrow>
         if c = CHR ''e'' \<or> c = CHR ''E'' then
           (case r1 of
              [] \<Rightarrow> 0
            | s # r2 \<Rightarrow>
                if s = CHR ''+'' then exp_digits 1 r2
                else if s = CHR ''-'' then exp_digits (- 1) r2
                else exp_digits 1 r1)
         else 0)"

definition parse_unsigned :: "string \<Rightarrow> rat option" where
  \<comment> \<open>the mathematical value of the longest prefix that is an unsigned decimal literal
      (digits, optional fraction, optional exponent), \<open>None\<close> when no prefix is one\<close>
  "parse_unsigned s = (let ip = takeWhile is_digit s; r = dropWhile is_digit s in
     case r of
       [] \<Rightarrow> if ip = [] then None else Some (of_nat (digits_val ip))
     | c # r1 \<Rightarrow>
         if c = CHR ''.'' then
           (let fp = takeWhile is_digit r1; r2 = dropWhile is_digit r1 in
            if ip = [] \<and> fp = [] then None
            else Some (of_nat (digits_val (ip @ fp))
                       * pow10 (parse_exponent r2 - int (length fp))))
         else if ip = [] then None
         else Some (of_nat (digits_val ip) * pow10 (parse_exponent r)))"

definition parseFloat :: "string \<Rightarrow> jsnum" where
  \<comment> \<open>the built-in \<^verbatim>\<open>parseFloat\<close> on a string: leading white space is skipped, the longest
      prefix that is a decimal literal is read, anything after it is ignored\<close>
  "parseFloat s = (let t = dropWhile is_ws s;
         neg = (t \<noteq> [] \<and> hd t = CHR ''-'');
         u = (if t \<noteq> [] \<and> (hd t = CHR ''-'' \<or> hd t = CHR ''+'') then tl t else t)
     in if prefix ''Infinity'' u then (if neg then NegInf else PosInf)
        else (case parse_unsigned u of
                None \<Rightarrow> NaN
              | Some mv \<Rightarrow>
                  if mv = 0 then (if neg then NegZero else Fin 0)
                  else to_double (if neg then - mv else mv)))"

definition parseFloat_cell :: "string option \<Rightarrow> jsnum" where
  \<comment> \<open>\<^verbatim>\<open>parseFloat(row[k])\<close>: a missing cell is \<^verbatim>\<open>undefined\<close>, converted to the text
      \<^verbatim>\<open>"undefined"\<close> first\<close>
  "parseFloat_cell c = (case c of None \<Rightarrow> parseFloat ''undefined'' | Some s \<Rightarrow> parseFloat s)"

definition or_zero :: "jsnum \<Rightarrow> jsnum" where
  \<comment> \<open>\<^verbatim>\<open>x || 0\<close> on a number: NaN and both zeros are falsy\<close>
  "or_zero x = (case x of NaN \<Rightarrow> Fin 0 | NegZero \<Rightarrow> Fin 0 | _ \<Rightarrow> x)"

section \<open>The record normalizer: \<^verbatim>\<open>processDataForLocalStorage\<close>\<close>

datatype field =
    TeacherId | TeacherName | Designation | Qualification | PayScale | PayBand | Agp
  | RevisedBasicPay | Da150 | Hra30 | Cla | AddAllowance | GrossTotal
  | ProfTax | IncomeTax | Pf | Lic | MedicalInsurance | EwFund | TotalDeductions | NetPay

type_synonym columnMap = "field \<rightharpoonup> nat"

definition classify :: "string \<Rightarrow> field option" where
  \<comment> \<open>the \<^verbatim>\<open>if\<close> / \<^verbatim>\<open>else if\<close> chain of the header loop, on the normalized header\<close>
  "classify h =
    (if includes_str h ''teacher'' \<and> includes_str h ''id'' then Some TeacherId
     else if includes_str h ''name'' \<and> includes_str h ''staff'' then Some TeacherName
     else if includes_str h ''designation'' then Some Designation
     else if includes_str h ''qualification'' then Some Qualification
     else if includes_str h ''pay scale'' \<or> includes_str h ''payscale'' then Some PayScale
     else if includes_str h ''pay'' \<and> includes_str h ''band'' then Some PayBand
     else if includes_str h ''a.g.p'' \<or> includes_str h ''agp'' then Some Agp
     else if includes_str h ''revised'' \<and> includes_str h ''basic'' then Some RevisedBasicPay
     else if includes_str h ''d.a'' \<and> includes_str h ''150'' then Some Da150
     else if includes_str h ''h.r.a'' \<and> includes_str h ''30'' then Some Hra30
     else if includes_str h ''c.l.a'' then Some Cla
     else if includes_str h ''add'' \<and> includes_str h ''allowance'' then Some AddAllowance
     else if includes_str h ''gross'' \<and> includes_str h ''total'' then Some GrossTotal
     else if includes_str h ''prof'' \<and> includes_str h ''tax'' then Some ProfTax
     else if includes_str h ''income'' \<and> includes_str h ''tax'' then Some IncomeTax
     else if includes_str h ''p.f'' \<or> h = ''pf'' then Some Pf
     else if includes_str h ''lic'' then Some Lic
     else if includes_str h ''medical'' \<and> includes_str h ''insur'' then Some MedicalInsurance
     else if includes_str h ''ew'' \<and> includes_str h ''fund'' then Some EwFund
     else if includes_str h ''total'' \<and> includes_str h ''deduction'' then Some TotalDeductions
     else if includes_str h ''net'' \<and> includes_str h ''pay'' then Some NetPay
     else None)"

definition header_field :: "string \<Rightarrow> field option" where
  \<comment> \<open>the field that the header loop assigns a header cell to, if any\<close>
  "header_field header = classify (trim (toLowerCase header))"

fun headers_loop :: "nat \<Rightarrow> row \<Rightarrow> columnMap \<Rightarrow> columnMap" where
  \<comment> \<open>\<^verbatim>\<open>headers.forEach((header, index) => ...)\<close>: each matching header assigns its index\<close>
  "headers_loop index [] cm = cm"
| "headers_loop index (header # rest) cm =
     (let normalizedHeader = trim (toLowerCase header) in
      headers_loop (Suc index) rest
        (case classify normalizedHeader of None \<Rightarrow> cm | Some f \<Rightarrow> cm(f \<mapsto> index)))"

definition build_columnMap :: "row \<Rightarrow> columnMap" where
  "build_columnMap headers = headers_loop 0 headers Map.empty"

definition cell :: "row \<Rightarrow> columnMap \<Rightarrow> field \<Rightarrow> string option" where
  \<comment> \<open>\<^verbatim>\<open>row[columnMap.f]\<close>: \<^verbatim>\<open>undefined\<close> (\<open>None\<close>) for an unmapped field and past the end of the row\<close>
  "cell r cm f = (case cm f of None \<Rightarrow> None
                  | Some k \<Rightarrow> if k < length r then Some (r ! k) else None)"

definition text_or :: "string option \<Rightarrow> string \<Rightarrow> string" where
  \<comment> \<open>\<^verbatim>\<open>x || d\<close> on a cell: \<^verbatim>\<open>undefined\<close> and the empty text are falsy\<close>
  "text_or c d = (case c of None \<Rightarrow> d | Some s \<Rightarrow> if s = [] then d else s)"

definition number_cell :: "row \<Rightarrow> columnMap \<Rightarrow> field \<Rightarrow> jsnum" where
  \<comment> \<open>\<^verbatim>\<open>parseFloat(row[columnMap.f]) || 0\<close>\<close>
  "number_cell r cm f = or_zero (parseFloat_cell (cell r cm f))"

definition getMonthNumber :: "string \<Rightarrow> string" where
  \<comment> \<open>\<^verbatim>\<open>months[monthName] || '01'\<close>, for a month name that is not a property every object
      inherits (such as \<^verbatim>\<open>constructor\<close>)\<close>
  "getMonthNumber monthName =
    (if monthName = ''January'' then ''01'' else if monthName = ''February'' then ''02''
     else if monthName = ''March'' then ''03'' else if monthName = ''April'' then ''04''
     else if monthName = ''May'' then ''05'' else if monthName = ''June'' then ''06''
     else if monthName = ''July'' then ''07'' else if monthName = ''August'' then ''08''
     else if monthName = ''September'' then ''09'' else if monthName = ''October'' then ''10''
     else if monthName = ''November'' then ''11'' else if monthName = ''December'' then ''12''
     else ''01'')"

record payroll_record =
  id_rec :: string
  teacherId :: string
  teacherName :: string
  designation :: string
  qualification :: string
  payScale :: string
  payBand :: string
  agp :: jsnum
  revisedBasicPay :: jsnum
  da150 :: jsnum
  hra30 :: jsnum
  cla :: jsnum
  addAllowance :: jsnum
  grossTotal :: jsnum
  profTax :: jsnum
  incomeTax :: jsnum
  pf :: jsnum
  lic :: jsnum
  medicalInsurance :: jsnum
  ewFund :: jsnum
  totalDeductions :: jsnum
  netPay :: jsnum
  basicSalary :: jsnum
  da :: jsnum
  hra :: jsnum
  allowances :: jsnum
  grossSalary :: jsnum
  payDate :: string
  status :: string
  month :: string
  year :: string
  monthNum :: string
  createdAt :: string

text \<open>
  \<^verbatim>\<open>new Date().toISOString()\<close> reads the clock. The readings are a parameter \<open>clk\<close>: while
  row \<open>i\<close> is processed, \<open>clk (2 * i)\<close> is the reading for \<^verbatim>\<open>payDate\<close> and \<open>clk (2 * i + 1)\<close>
  the one for \<^verbatim>\<open>createdAt\<close>.
\<close>

definition make_record :: "columnMap \<Rightarrow> string \<Rightarrow> string \<Rightarrow> (nat \<Rightarrow> string) \<Rightarrow> nat \<Rightarrow> row \<Rightarrow> payroll_record" where
  "make_record cm mo yr clk i r =
    \<lparr> id_rec = text_or (cell r cm TeacherId) (nat_to_string i) @ ''_'' @ mo @ ''_'' @ yr,
      teacherId = text_or (cell r cm TeacherId) [],
      teacherName = text_or (cell r cm TeacherName) [],
      designation = text_or (cell r cm Designation) [],
      qualification = text_or (cell r cm Qualification) [],
      payScale = text_or (cell r cm PayScale) [],
      payBand = text_or (cell r cm PayBand) [],
      agp = number_cell r cm Agp,
      revisedBasicPay = number_cell r cm RevisedBasicPay,
      da150 = number_cell r cm Da150,
      hra30 = number_cell r cm Hra30,
      cla = number_cell r cm Cla,
      addAllowance = number_cell r cm AddAllowance,
      grossTotal = number_cell r cm GrossTotal,
      profTax = number_cell r cm ProfTax,
      incomeTax = number_cell r cm IncomeTax,
      pf = number_cell r cm Pf,
      lic = number_cell r cm Lic,
      medicalInsurance = number_cell r cm MedicalInsurance,
      ewFund = number_cell r cm EwFund,
      totalDeductions = number_cell r cm TotalDeductions,
      netPay = number_cell r cm NetPay,
      basicSalary = number_cell r cm RevisedBasicPay,
      da = number_cell r cm Da150,
      hra = number_cell r cm Hra30,
      allowances = number_cell r cm AddAllowance,
      grossSalary = number_cell r cm GrossTotal,
      payDate = takeWhile (\<lambda>c. c \<noteq> CHR ''T'') (clk (2 * i)),
      status = ''paid'',
      month = mo,
      year = yr,
      monthNum = getMonthNumber mo,
      createdAt = clk (2 * i + 1) \<rparr>"

fun rows_loop :: "columnMap \<Rightarrow> string \<Rightarrow> string \<Rightarrow> (nat \<Rightarrow> string) \<Rightarrow> nat \<Rightarrow> grid
    \<Rightarrow> payroll_record list \<Rightarrow> payroll_record list" where
  \<comment> \<open>\<^verbatim>\<open>for (let i = 1; i < csvData.length; i++)\<close>, on the rows from \<open>i\<close> on\<close>
  "rows_loop cm mo yr clk i [] processedData = processedData"
| "rows_loop cm mo yr clk i (r # rest) processedData =
     (if length r < 3 then rows_loop cm mo yr clk (Suc i) rest processedData
      else rows_loop cm mo yr clk (Suc i) rest (processedData @ [make_record cm mo yr clk i r]))"

definition processDataForLocalStorage :: "(nat \<Rightarrow> string) \<Rightarrow> grid \<Rightarrow> string \<Rightarrow> string \<Rightarrow> payroll_record list" where
  "processDataForLocalStorage clk csvData mo yr =
    (if length csvData < 2 then []
     else rows_loop (build_columnMap (hd csvData)) mo yr clk 1 (tl csvData) [])"

section \<open>The tabular parser: \<^verbatim>\<open>parseCSV\<close>\<close>

definition strip_quotes :: "string \<Rightarrow> string" where
  \<comment> \<open>\<^verbatim>\<open>.replace(/^"|"$/g, '')\<close>: one double quote off the start, one off the end\<close>
  "strip_quotes s =
    (let s1 = (case s of [] \<Rightarrow> [] | c # t \<Rightarrow> if c = CHR 0x22 then t else s)
     in if s1 \<noteq> [] \<and> last s1 = CHR 0x22 then butlast s1 else s1)"

definition parse_line :: "string \<Rightarrow> row" where
  \<comment> \<open>\<^verbatim>\<open>line.split(',').map(cell => cell.trim().replace(/^"|"$/g, ''))\<close>\<close>
  "parse_line line = map (\<lambda>c. strip_quotes (trim c)) (split_on CHR '','' line)"

fun parse_lines :: "string list \<Rightarrow> grid" where
  \<comment> \<open>\<^verbatim>\<open>for (let line of lines) { if (line.trim()) { ... result.push(row) } }\<close>\<close>
  "parse_lines [] = []"
| "parse_lines (line # rest) =
     (if trim line \<noteq> [] then parse_line line # parse_lines rest else parse_lines rest)"

definition parseCSV :: "string \<Rightarrow> grid" where
  "parseCSV csvContent = parse_lines (split_on CHR 0x0A csvContent)"

section \<open>The validator: \<^verbatim>\<open>validatePaysheetData\<close>\<close>

definition is_sep :: "char \<Rightarrow> bool" where
  \<comment> \<open>the character class \<^verbatim>\<open>[\s\-_\.]\<close>\<close>
  "is_sep c = (is_ws c \<or> c = CHR ''-'' \<or> c = CHR ''_'' \<or> c = CHR ''.'')"

definition strip_seps :: "string \<Rightarrow> string" where
  \<comment> \<open>\<^verbatim>\<open>.replace(/[\s\-_\.]/g, '')\<close>\<close>
  "strip_seps s = filter (\<lambda>c. \<not> is_sep c) s"

definition normalize_header :: "string \<Rightarrow> string" where
  \<comment> \<open>\<^verbatim>\<open>h.toLowerCase().replace(/[\s\-_\.]/g, '').trim()\<close>\<close>
  "normalize_header h = trim (strip_seps (toLowerCase h))"

definition requiredColumns :: "(string \<times> string list) list" where
  "requiredColumns =
    [(''Teacher ID'',
        [''teacher_id'', ''teacherid'', ''id'', ''emp_id'', ''employee_id'', ''staff_id'']),
     (''Teacher Name'',
        [''teacher_name'', ''teachername'', ''name'', ''employee_name'', ''staff_name'', ''full_name'']),
     (''Basic Salary'',
        [''basic_salary'', ''basicsalary'', ''basic'', ''base_salary'', ''salary''])]"

definition found :: "string list \<Rightarrow> string list \<Rightarrow> bool" where
  \<comment> \<open>\<^verbatim>\<open>normalizedHeaders.some(header => patterns.some(pattern => ...))\<close>\<close>
  "found normalizedHeaders patterns =
    list_ex (\<lambda>header. list_ex (\<lambda>pattern.
        includes_str header (strip_seps pattern) \<or> includes_str (strip_seps pattern) header)
      patterns) normalizedHeaders"

fun required_loop :: "string list \<Rightarrow> (string \<times> string list) list \<Rightarrow> string list" where
  \<comment> \<open>\<^verbatim>\<open>for (let required of requiredColumns)\<close>; the result lists the names that
      \<^verbatim>\<open>console.warn\<close> reports as not found\<close>
  "required_loop normalizedHeaders [] = []"
| "required_loop normalizedHeaders ((name, patterns) # rest) =
     (if \<not> found normalizedHeaders patterns
      then name # required_loop normalizedHeaders rest
      else required_loop normalizedHeaders rest)"

definition too_short_message :: string where
  "too_short_message = ''File must contain at least header row and one data row''"

definition validatePaysheetData :: "grid option \<Rightarrow> string + (bool \<times> string list)" where
  \<comment> \<open>\<open>None\<close> is \<^verbatim>\<open>null\<close> or \<^verbatim>\<open>undefined\<close>; \<open>Inl\<close> is the message of the thrown error;
      \<open>Inr\<close> carries the returned value and the names warned about\<close>
  "validatePaysheetData data =
    (case data of
       None \<Rightarrow> Inl too_short_message
     | Some d \<Rightarrow>
         if length d < 2 then Inl too_short_message
         else Inr (True, required_loop (map normalize_header (hd d)) requiredColumns))"

section \<open>The batch summary and the stored documents\<close>

record summary =
  totalRecords :: nat
  totalGross :: jsnum
  totalDeductionsSum :: jsnum  \<comment> \<open>the property \<^verbatim>\<open>summary.totalDeductions\<close>\<close>
  totalNet :: jsnum

definition make_summary :: "payroll_record list \<Rightarrow> summary" where
  \<comment> \<open>the \<^verbatim>\<open>summary\<close> object, written the same way on both write paths:
      \<^verbatim>\<open>processedData.reduce((sum, record) => sum + record.grossSalary, 0)\<close> and so on\<close>
  "make_summary processedData =
    \<lparr> totalRecords = length processedData,
      totalGross = foldl (\<lambda>sum r. js_add sum (grossSalary r)) (Fin 0) processedData,
      totalDeductionsSum = foldl (\<lambda>sum r. js_add sum (totalDeductions r)) (Fin 0) processedData,
      totalNet = foldl (\<lambda>sum r. js_add sum (netPay r)) (Fin 0) processedData \<rparr>"

datatype records_shape =
    ById "string \<rightharpoonup> payroll_record"  \<comment> \<open>an object keyed by \<^verbatim>\<open>teacherId\<close>\<close>
  | InOrder "payroll_record list"       \<comment> \<open>the array itself\<close>

record paysheet_data =
  ps_month :: string
  ps_year :: string
  ps_monthNum :: "string option"  \<comment> \<open>absent on the local-storage path\<close>
  ps_importDate :: string
  ps_records :: records_shape
  ps_summary :: summary

record salary_slip =
  slip_id :: string
  slip_teacherId :: string
  slip_teacherName :: string
  slip_month :: string
  slip_year :: string
  slip_monthNum :: string
  slip_payDate :: string
  slip_designation :: string
  slip_department :: "string option"     \<comment> \<open>\<^verbatim>\<open>record.department\<close>: no such property\<close>
  slip_basicSalary :: jsnum
  slip_hra :: jsnum
  slip_da :: jsnum
  slip_allowances :: jsnum
  slip_grossSalary :: jsnum
  slip_pf :: jsnum
  slip_esi :: "jsnum option"             \<comment> \<open>\<^verbatim>\<open>record.esi\<close>: no such property\<close>
  slip_tax :: "jsnum option"             \<comment> \<open>\<^verbatim>\<open>record.tax\<close>: no such property\<close>
  slip_otherDeductions :: "jsnum option" \<comment> \<open>\<^verbatim>\<open>record.otherDeductions\<close>: no such property\<close>
  slip_totalDeductions :: jsnum
  slip_netPay :: jsnum
  slip_status :: string
  slip_createdAt :: string
  slip_paysheetId :: string

datatype fb_value = PaysheetDoc paysheet_data | SlipDoc salary_slip

text \<open>
  The two stores. A value of the Firebase database sits under its path; a value of the
  browser's local storage is the JSON text of a paysheet object, kept here as the object.
\<close>

record stores =
  firebaseDB :: "string \<rightharpoonup> fb_value"
  localStorage :: "string \<rightharpoonup> paysheet_data"

section \<open>The import: \<^verbatim>\<open>importPaysheetFile\<close>\<close>

text \<open>
  What the import cannot decide by itself is a parameter, the \<open>world\<close>: whether setting up
  Firebase throws (\<^verbatim>\<open>firebase.apps\<close>, \<^verbatim>\<open>initializeApp\<close>, \<^verbatim>\<open>new FirebaseDB()\<close>), whether the
  \<open>k\<close>-th write to Firebase fails (write 0 is the paysheet, write \<open>k\<close> the \<open>k\<close>-th salary slip;
  obtaining the reference of a write counts as part of it), whether obtaining the reference
  \<^verbatim>\<open>salarySlips\<close> between the two throws, whether \<^verbatim>\<open>localStorage.setItem\<close> throws for a key and
  a value on the present store, what the spreadsheet library reads from a buffer, and the
  clock readings. A failure carries the message of the error.
\<close>

type_synonym buffer = "nat list"

record world =
  fb_setup_error :: "string option"
  fb_write_error :: "nat \<Rightarrow> string option"
  fb_slips_ref_error :: "string option"
  ls_error :: "(string \<rightharpoonup> paysheet_data) \<Rightarrow> string \<Rightarrow> paysheet_data \<Rightarrow> string option"
  xlsx_read :: "buffer \<Rightarrow> string + grid"
  clock_primary :: "nat \<Rightarrow> string"
  importDate_primary :: string
  slip_clock :: "nat \<Rightarrow> string"
  clock_fallback :: "nat \<Rightarrow> string"
  importDate_fallback :: string

record input_file =
  file_name :: string
  file_text :: "string option"    \<comment> \<open>what \<^verbatim>\<open>readAsText\<close> loads, \<open>None\<close> when the reader fails\<close>
  file_buffer :: "buffer option"  \<comment> \<open>what \<^verbatim>\<open>readAsArrayBuffer\<close> loads, \<open>None\<close> when it fails\<close>

datatype content = TextContent string | BufferContent buffer

datatype outcome =
    Success string "payroll_record list" "string option"
      \<comment> \<open>\<^verbatim>\<open>{success: true, message, data, paysheetId}\<close>, \<open>None\<close> for \<^verbatim>\<open>paysheetId: null\<close>\<close>
  | Failure string
      \<comment> \<open>\<^verbatim>\<open>{success: false, message, data: null}\<close>\<close>

definition is_csv :: "string \<Rightarrow> bool" where
  "is_csv name = suffix ''.csv'' (toLowerCase name)"

definition is_excel :: "string \<Rightarrow> bool" where
  "is_excel name = (suffix ''.xlsx'' (toLowerCase name) \<or> suffix ''.xls'' (toLowerCase name))"

definition readFile :: "input_file \<Rightarrow> string + content" where
  "readFile f =
    (if is_csv (file_name f) then
       (case file_text f of Some t \<Rightarrow> Inr (TextContent t) | None \<Rightarrow> Inl ''Failed to read CSV file'')
     else if is_excel (file_name f) then
       (case file_buffer f of Some b \<Rightarrow> Inr (BufferContent b) | None \<Rightarrow> Inl ''Failed to read Excel file'')
     else Inl ''Unsupported file format'')"

definition parseExcel :: "world \<Rightarrow> buffer \<Rightarrow> string + grid" where
  "parseExcel w excelBuffer =
    (case xlsx_read w excelBuffer of
       Inl m \<Rightarrow> Inl (''Failed to parse Excel file: '' @ m)
     | Inr jsonData \<Rightarrow> Inr jsonData)"

definition parse_content :: "world \<Rightarrow> string \<Rightarrow> content \<Rightarrow> string + grid" where
  \<comment> \<open>the choice of the parser by the file name. \<open>readFile\<close> gives a \<^verbatim>\<open>.csv\<close> file a text and
      an Excel file a buffer, so the other two pairings and the last branch never arise
      (lemma \<open>parse_file_cases\<close>)\<close>
  "parse_content w name c =
    (if is_csv name then
       (case c of TextContent t \<Rightarrow> Inr (parseCSV t)
        | BufferContent b \<Rightarrow> Inl ''csvContent.split is not a function'')
     else if is_excel name then
       (case c of BufferContent b \<Rightarrow> parseExcel w b
        | TextContent t \<Rightarrow> Inl ''Failed to parse Excel file: '')
     else Inl ''Unsupported file format. Please use CSV or Excel files (.csv, .xlsx, .xls).'')"

definition parse_file :: "world \<Rightarrow> input_file \<Rightarrow> string + grid" where
  "parse_file w f =
    (case readFile f of Inl m \<Rightarrow> Inl m | Inr c \<Rightarrow> parse_content w (file_name f) c)"

definition make_slip :: "string \<Rightarrow> string \<Rightarrow> string \<Rightarrow> string \<Rightarrow> payroll_record \<Rightarrow> salary_slip" where
  "make_slip mo yr paysheetKey now r =
    \<lparr> slip_id = teacherId r @ ''_'' @ mo @ ''_'' @ yr,
      slip_teacherId = teacherId r,
      slip_teacherName = teacherName r,
      slip_month = mo,
      slip_year = yr,
      slip_monthNum = getMonthNumber mo,
      slip_payDate = payDate r,
      slip_designation = designation r,
      slip_department = None,
      slip_basicSalary = basicSalary r,
      slip_hra = hra r,
      slip_da = da r,
      slip_allowances = allowances r,
      slip_grossSalary = grossSalary r,
      slip_pf = pf r,
      slip_esi = None,
      slip_tax = None,
      slip_otherDeductions = None,
      slip_totalDeductions = totalDeductions r,
      slip_netPay = netPay r,
      slip_status = (if status r = [] then ''Generated'' else status r),
      slip_createdAt = now,
      slip_paysheetId = paysheetKey \<rparr>"

fun slips_loop :: "world \<Rightarrow> string \<Rightarrow> string \<Rightarrow> string \<Rightarrow> nat \<Rightarrow> payroll_record list
    \<Rightarrow> (string \<rightharpoonup> fb_value) \<Rightarrow> string option \<times> (string \<rightharpoonup> fb_value)" where
  \<comment> \<open>\<^verbatim>\<open>for (const record of processedData) { ... await salarySlipsRef.child(slipId).set(salarySlip) }\<close>;
      the first failing write ends the loop with its error\<close>
  "slips_loop w mo yr paysheetKey k [] db = (None, db)"
| "slips_loop w mo yr paysheetKey k (r # rest) db =
     (case fb_write_error w k of
        Some e \<Rightarrow> (Some e, db)
      | None \<Rightarrow>
          slips_loop w mo yr paysheetKey (Suc k) rest
            (db(''salarySlips/'' @ teacherId r @ ''_'' @ mo @ ''_'' @ yr
                  \<mapsto> SlipDoc (make_slip mo yr paysheetKey (slip_clock w k) r))))"

definition records_by_id :: "payroll_record list \<Rightarrow> (string \<rightharpoonup> payroll_record)" where
  \<comment> \<open>\<^verbatim>\<open>processedData.forEach(record => { paysheetData.records[record.teacherId] = record })\<close>\<close>
  "records_by_id processedData = foldl (\<lambda>m r. m(teacherId r \<mapsto> r)) Map.empty processedData"

definition primary_doc :: "world \<Rightarrow> payroll_record list \<Rightarrow> string \<Rightarrow> string \<Rightarrow> paysheet_data" where
  "primary_doc w processedData mo yr =
    \<lparr> ps_month = mo, ps_year = yr, ps_monthNum = Some (getMonthNumber mo),
      ps_importDate = importDate_primary w,
      ps_records = ById (records_by_id processedData),
      ps_summary = make_summary processedData \<rparr>"

definition fallback_doc :: "world \<Rightarrow> payroll_record list \<Rightarrow> string \<Rightarrow> string \<Rightarrow> paysheet_data" where
  "fallback_doc w processedData mo yr =
    \<lparr> ps_month = mo, ps_year = yr, ps_monthNum = None,
      ps_importDate = importDate_fallback w,
      ps_records = InOrder processedData,
      ps_summary = make_summary processedData \<rparr>"

definition primary_message :: "nat \<Rightarrow> string" where
  "primary_message n =
    ''Successfully imported '' @ nat_to_string n @ '' paysheet records to Firebase database''"

definition fallback_message :: "nat \<Rightarrow> string" where
  "fallback_message n =
    ''Successfully imported '' @ nat_to_string n
      @ '' paysheet records to local storage (Firebase backup failed)''"

definition primary_attempt :: "world \<Rightarrow> stores \<Rightarrow> grid \<Rightarrow> string \<Rightarrow> string \<Rightarrow> (string + outcome) \<times> stores" where
  \<comment> \<open>the inner \<^verbatim>\<open>try\<close> block: \<open>Inl\<close> is the error it throws, with the stores as the writes
      made before it left them\<close>
  "primary_attempt w st parsedData mo yr =
    (case fb_setup_error w of
       Some e \<Rightarrow> (Inl e, st)
     | None \<Rightarrow>
         let paysheetKey = mo @ ''_'' @ yr;
             processedData = processDataForLocalStorage (clock_primary w) parsedData mo yr;
             paysheetData = primary_doc w processedData mo yr
         in (case fb_write_error w 0 of
               Some e \<Rightarrow> (Inl e, st)
             | None \<Rightarrow>
                 let db0 = (firebaseDB st)(''paysheets/'' @ paysheetKey \<mapsto> PaysheetDoc paysheetData)
                 in (case fb_slips_ref_error w of
                       Some e \<Rightarrow> (Inl e, st\<lparr>firebaseDB := db0\<rparr>)
                     | None \<Rightarrow>
                         (case slips_loop w mo yr paysheetKey 1 processedData db0 of
                            (Some e, db) \<Rightarrow> (Inl e, st\<lparr>firebaseDB := db\<rparr>)
                          | (None, db) \<Rightarrow>
                              (case ls_error w (localStorage st) (''paysheet_'' @ mo @ ''_'' @ yr)
                                      paysheetData of
                                 Some e \<Rightarrow> (Inl e, st\<lparr>firebaseDB := db\<rparr>)
                               | None \<Rightarrow>
                                   (Inr (Success (primary_message (length processedData)) processedData
                                           (Some paysheetKey)),
                                    st\<lparr>firebaseDB := db,
                                       localStorage := (localStorage st)
                                          (''paysheet_'' @ mo @ ''_'' @ yr \<mapsto> paysheetData)\<rparr>))))))"

definition fallback_attempt :: "world \<Rightarrow> stores \<Rightarrow> grid \<Rightarrow> string \<Rightarrow> string \<Rightarrow> (string + outcome) \<times> stores" where
  \<comment> \<open>the inner \<^verbatim>\<open>catch\<close> block, which does not read the error it caught\<close>
  "fallback_attempt w st parsedData mo yr =
    (let paysheetKey = ''paysheet_'' @ mo @ ''_'' @ yr;
         processedData = processDataForLocalStorage (clock_fallback w) parsedData mo yr;
         paysheetData = fallback_doc w processedData mo yr
     in case ls_error w (localStorage st) paysheetKey paysheetData of
          Some e \<Rightarrow> (Inl e, st)
        | None \<Rightarrow>
            (Inr (Success (fallback_message (length processedData)) processedData None),
             st\<lparr>localStorage := (localStorage st)(paysheetKey \<mapsto> paysheetData)\<rparr>))"

definition importPaysheetFile :: "world \<Rightarrow> stores \<Rightarrow> input_file \<Rightarrow> string \<Rightarrow> string \<Rightarrow> outcome \<times> stores" where
  "importPaysheetFile w st f mo yr =
    (case parse_file w f of
       Inl m \<Rightarrow> (Failure m, st)
     | Inr parsedData \<Rightarrow>
         (case validatePaysheetData (Some parsedData) of
            Inl m \<Rightarrow> (Failure m, st)
          | Inr ok \<Rightarrow>
              (case primary_attempt w st parsedData mo yr of
                 (Inr out, st1) \<Rightarrow> (out, st1)
               | (Inl e, st1) \<Rightarrow>
                   (case fallback_attempt w st1 parsedData mo yr of
                      (Inr out, st2) \<Rightarrow> (out, st2)
                    | (Inl m, st2) \<Rightarrow> (Failure m, st2)))))"

section \<open>Whole amounts\<close>

text \<open>
  Sums of whole amounts below \<open>2 ^ 53\<close> are exact; these two notions state that.
\<close>

definition whole_amount :: "jsnum \<Rightarrow> bool" where
  \<comment> \<open>a finite number without a fractional part\<close>
  "whole_amount x = (case x of Fin q \<Rightarrow> of_int \<lfloor>q\<rfloor> = q | _ \<Rightarrow> False)"

definition amount :: "jsnum \<Rightarrow> rat" where
  \<comment> \<open>the value of a finite number\<close>
  "amount x = (case x of Fin q \<Rightarrow> q | _ \<Rightarrow> 0)"

section \<open>Sample inputs\<close>

definition sample_clock :: "nat \<Rightarrow> string" where
  "sample_clock k = ''2025-01-31T09:30:00.000Z''"

definition scenario_A :: grid where
  \<comment> \<open>the grid \<^verbatim>\<open>parseCSV\<close> makes of the lines \<^verbatim>\<open>ID,Name,Basic\<close> and \<^verbatim>\<open>T001,Dr. Smith,50000\<close>\<close>
  "scenario_A = [[''ID'', ''Name'', ''Basic''], [''T001'', ''Dr. Smith'', ''50000'']]"

definition exact_headers_A :: grid where
  \<comment> \<open>the same row under headers that the header loop recognizes\<close>
  "exact_headers_A =
     [[''Teacher ID'', ''Name of Staff'', ''Revised Basic Pay''], [''T001'', ''Dr. Smith'', ''50000'']]"

definition short_row_grid :: grid where
  \<comment> \<open>a data row of 2 cells between two complete rows\<close>
  "short_row_grid =
     [[''Teacher ID'', ''Name of Staff'', ''Revised Basic Pay''],
      [''T001'', ''Dr. Smith'', ''50000''], [''T002'', ''Ms. Doe''], [''T003'', ''Mr. Rao'', ''45000'']]"


definition tenths_grid :: grid where
  \<comment> \<open>three data rows with the gross totals 0.1, 0.2 and 0.3\<close>
  "tenths_grid =
     [[''Teacher ID'', ''Gross Total'', ''Net Pay''],
      [''T001'', ''0.1'', ''0.1''], [''T002'', ''0.2'', ''0.2''], [''T003'', ''0.3'', ''0.3'']]"

definition whole_grid :: grid where
  \<comment> \<open>two data rows whose amounts are whole numbers\<close>
  "whole_grid =
     [[''Teacher ID'', ''Gross Total'', ''Total Deductions'', ''Net Pay''],
      [''T001'', ''73000'', ''12500'', ''60500''], [''T002'', ''65500'', ''10600'', ''54900'']]"

definition sample_csv :: input_file where
  "sample_csv =
    \<lparr> file_name = ''january.CSV'',
      file_text = Some (''ID,Name,Basic'' @ [CHR 0x0A] @ ''T001,Dr. Smith,50000'' @ [CHR 0x0A]),
      file_buffer = None \<rparr>"


definition empty_stores :: stores where
  "empty_stores = \<lparr> firebaseDB = Map.empty, localStorage = Map.empty \<rparr>"

definition sample_world :: world where
  \<comment> \<open>Firebase is not set up (the first step of the primary path throws); local storage accepts every item\<close>
  "sample_world =
    \<lparr> fb_setup_error = Some ''firebase is not defined'',
      fb_write_error = (\<lambda>k. None),
      fb_slips_ref_error = None,
      ls_error = (\<lambda>store key v. None),
      xlsx_read = (\<lambda>b. Inl ''Unsupported file''),
      clock_primary = sample_clock,
      importDate_primary = ''2025-01-31T09:30:00.000Z'',
      slip_clock = sample_clock,
      clock_fallback = sample_clock,
      importDate_fallback = ''2025-01-31T09:30:01.000Z'' \<rparr>"

definition quota_world :: world where
  \<comment> \<open>Firebase is not set up and local storage is full\<close>
  "quota_world = sample_world\<lparr>ls_error := (\<lambda>store key v. Some ''The quota has been exceeded.'')\<rparr>"

definition online_world :: world where
  \<comment> \<open>every write succeeds\<close>
  "online_world = sample_world\<lparr>fb_setup_error := None\<rparr>"

definition slip_failure_world :: world where
  \<comment> \<open>the paysheet is written, the write of the first salary slip is rejected\<close>
  "slip_failure_world = sample_world\<lparr>fb_setup_error := None,
     fb_write_error := (\<lambda>k. if k = 1 then Some ''PERMISSION_DENIED: Permission denied'' else None)\<rparr>"

section \<open>Rounding: facts about \<open>to_double\<close>\<close>

lemma pow2_powi: "pow2 e = 2 powi e"
  by (simp add: pow2_def power_int_def power_one_over inverse_eq_divide)

lemma pow2_pos [simp]: "0 < pow2 e"
  by (simp add: pow2_powi)

lemma pow2_add: "pow2 (a + b) = pow2 a * pow2 b"
  by (simp add: pow2_powi power_int_add)

lemma pow2_divide: "x / pow2 e = x * pow2 (- e)"
  by (simp add: pow2_powi power_int_minus_divide)

lemma pow2_mono: "a \<le> b \<Longrightarrow> pow2 a \<le> pow2 b"
  by (simp add: pow2_powi power_int_increasing)

lemma floor_log2_bounds:
  assumes "0 < a"
  shows "pow2 (floor_log2 a) \<le> a" and "a < pow2 (floor_log2 a + 1)"
proof -
  obtain p q where pq: "quotient_of a = (p, q)" by (cases "quotient_of a")
  have q: "0 < q" using pq by (rule quotient_of_denom_pos)
  have a: "a = of_int p / of_int q" using pq by (rule quotient_of_div)
  have p: "0 < p" using assms q by (simp add: a zero_less_divide_iff)
  define bp where "bp = bitlen p"
  define bq where "bq = bitlen q"
  have bp1: "1 \<le> bp" and bq1: "1 \<le> bq"
    using p q bitlen_eq_zero_iff[of p] bitlen_eq_zero_iff[of q] bitlen_nonneg[of p] bitlen_nonneg[of q]
    by (auto simp: bp_def bq_def)
  have "2 ^ nat (bp - 1) \<le> p" "p < 2 ^ nat bp" "2 ^ nat (bq - 1) \<le> q" "q < 2 ^ nat bq"
    using bitlen_bounds[OF p] bitlen_bounds[OF q] by (simp_all add: bp_def bq_def)
  then have P: "pow2 (bp - 1) \<le> of_int p" "of_int p < pow2 bp"
    and Q: "pow2 (bq - 1) \<le> of_int q" "of_int q < pow2 bq"
    using bp1 bq1 by (simp_all add: pow2_def of_int_le_numeral_power_cancel_iff
        numeral_power_le_of_int_cancel_iff of_int_less_numeral_power_cancel_iff)
  have qpos: "(0::rat) < of_int q" using q by simp
  have lower: "pow2 (bp - bq - 1) < a"
  proof -
    have "pow2 (bp - bq - 1) * of_int q < pow2 (bp - bq - 1) * pow2 bq"
      using Q(2) by simp
    also have "\<dots> = pow2 (bp - 1)" by (simp add: pow2_add [symmetric])
    also have "\<dots> \<le> of_int p" by (rule P(1))
    finally show ?thesis using qpos by (simp add: a pos_less_divide_eq)
  qed
  have upper: "a < pow2 (bp - bq + 1)"
  proof -
    have "of_int p < pow2 bp" by (rule P(2))
    also have "\<dots> = pow2 (bp - bq + 1) * pow2 (bq - 1)" by (simp add: pow2_add [symmetric])
    also have "\<dots> \<le> pow2 (bp - bq + 1) * of_int q"
      using Q(1) by simp
    finally show ?thesis using qpos by (simp add: a pos_divide_less_eq)
  qed
  have fl: "floor_log2 a = (if pow2 (bp - bq) \<le> a then bp - bq else bp - bq - 1)"
    by (simp add: floor_log2_def pq bp_def bq_def Let_def)
  show "pow2 (floor_log2 a) \<le> a" using lower by (simp add: fl)
  show "a < pow2 (floor_log2 a + 1)" using upper by (simp add: fl)
qed

lemma floor_log2_unique:
  assumes "0 < a" "pow2 e \<le> a" "a < pow2 (e + 1)"
  shows "floor_log2 a = e"
proof (rule ccontr)
  assume ne: "floor_log2 a \<noteq> e"
  note b = floor_log2_bounds[OF assms(1)]
  show False
  proof (cases "floor_log2 a < e")
    case True
    then have "pow2 (floor_log2 a + 1) \<le> pow2 e" by (intro pow2_mono) simp
    with b(2) assms(2) show False by simp
  next
    case False
    with ne have "pow2 (e + 1) \<le> pow2 (floor_log2 a)" by (intro pow2_mono) simp
    with b(1) assms(3) show False by simp
  qed
qed

lemma round_half_even_of_int [simp]: "round_half_even (of_int n) = n"
  by (simp add: round_half_even_def)

lemma to_double_small_int:
  assumes "\<bar>n\<bar> \<le> 2 ^ 53"
  shows "to_double (of_int n) = Fin (of_int n)"
proof (cases "n = 0")
  case True
  then show ?thesis by (simp add: to_double_def)
next
  case False
  define a :: rat where "a = \<bar>of_int n\<bar>"
  have a1: "1 \<le> a" using False by (simp add: a_def)
  have apos: "0 < a" using a1 by simp
  have a53: "a \<le> 2 ^ 53" using assms unfolding a_def
    by (metis of_int_abs of_int_le_numeral_power_cancel_iff)
  define e where "e = floor_log2 a"
  note b = floor_log2_bounds[OF apos, folded e_def]
  have e0: "0 \<le> e"
  proof (rule ccontr)
    assume "\<not> 0 \<le> e"
    then have "pow2 (e + 1) \<le> pow2 0" by (intro pow2_mono) simp
    with b(2) a1 show False by (simp add: pow2_def)
  qed
  have e53: "e \<le> 53"
  proof (rule ccontr)
    assume "\<not> e \<le> 53"
    then have "pow2 54 \<le> pow2 e" by (intro pow2_mono) simp
    with b(1) a53 show False by (simp add: pow2_def)
  qed
  have "\<exists>k::int. a / pow2 (e - 52) = of_int k"
  proof (cases "e \<le> 52")
    case True
    have "a / pow2 (e - 52) = a * pow2 (52 - e)"
      by (simp add: pow2_divide)
    also have "\<dots> = of_int (\<bar>n\<bar> * 2 ^ nat (52 - e))"
      using True by (simp add: a_def pow2_def)
    finally show ?thesis by blast
  next
    case False
    with e53 have e: "e = 53" by simp
    have "a = 2 ^ 53" using b(1) a53 by (simp add: e pow2_def)
    then have "a / pow2 (e - 52) = of_int (2 ^ 52)" by (simp add: e pow2_def)
    then show ?thesis by blast
  qed
  then obtain k :: int where k: "a / pow2 (e - 52) = of_int k" by blast
  have une: "pow2 (e - 52) \<noteq> 0" by (simp add: pow2_powi)
  have kne: "k \<noteq> 0" using k apos une by auto
  have r: "of_int k * pow2 (e - 52) = a" using k une by (simp add: field_simps)
  have lt: "\<not> pow2 1024 \<le> a" using a53 by (simp add: pow2_def)
  have mx: "max e (- 1022) = e" using e0 by simp
  have sgn: "(if of_int n < (0::rat) then - a else a) = of_int n" by (simp add: a_def)
  from False have "to_double (of_int n) = Fin (if of_int n < (0::rat) then - a else a)"
    unfolding to_double_def Let_def a_def[symmetric] e_def[symmetric] mx k
    using lt kne by (simp add: r)
  then show ?thesis using sgn by simp
qed

lemma round_half_even_eqI:
  assumes "of_int m - 1 / 2 < x" "x < of_int m + 1 / 2"
  shows "round_half_even x = m"
proof (cases "of_int m \<le> x")
  case True
  then have f: "\<lfloor>x\<rfloor> = m" using assms by (intro floor_unique) auto
  show ?thesis using assms True by (simp add: round_half_even_def f Let_def)
next
  case False
  then have f: "\<lfloor>x\<rfloor> = m - 1" using assms by (intro floor_unique) auto
  show ?thesis using assms False by (simp add: round_half_even_def f Let_def)
qed

lemma round_half_even_tie_down:
  assumes "x = of_int m + 1 / 2" "even m"
  shows "round_half_even x = m"
proof -
  have f: "\<lfloor>x\<rfloor> = m" using assms by (intro floor_unique) auto
  have r: "x - of_int m = 1 / 2" using assms by simp
  show ?thesis unfolding round_half_even_def Let_def f r using assms(2) by simp
qed

lemma round_half_even_tie_up:
  assumes "x = of_int m - 1 / 2" "even m"
  shows "round_half_even x = m"
proof -
  have f: "\<lfloor>x\<rfloor> = m - 1" using assms by (intro floor_unique) auto
  have r: "x - of_int (m - 1) = 1 / 2" using assms by simp
  show ?thesis unfolding round_half_even_def Let_def f r using assms(2) by simp
qed

lemma to_double_eqI:
  assumes "0 < x" "pow2 e \<le> x" "x < pow2 (e + 1)" "- 1022 \<le> e"
    and "round_half_even (x / pow2 (e - 52)) = m" "m \<noteq> 0"
    and "of_int m * pow2 (e - 52) < pow2 1024"
  shows "to_double x = Fin (of_int m * pow2 (e - 52))"
proof -
  have fl: "floor_log2 x = e" using assms(1-3) by (rule floor_log2_unique)
  have ab: "\<bar>x\<bar> = x" using assms(1) by simp
  have mx: "max e (- 1022) = e" using assms(4) by simp
  show ?thesis
    unfolding to_double_def Let_def ab fl mx assms(5)
    using assms(1,6,7) by simp
qed

lemma js_add_Fin_eqI:
  assumes "0 < a + b" "pow2 e \<le> a + b" "a + b < pow2 (e + 1)" "- 1022 \<le> e"
    and "round_half_even ((a + b) / pow2 (e - 52)) = m" "m \<noteq> 0"
    and "of_int m * pow2 (e - 52) < pow2 1024"
    and "r = of_int m * pow2 (e - 52)"
  shows "js_add (Fin a) (Fin b) = Fin r"
  using to_double_eqI[OF assms(1-7)] assms(8) by simp

section \<open>Evaluation rules for the text primitives\<close>

lemmas text_eval = is_ws_def trim_def toLowerCase_def lower_char_def
  is_sep_def strip_seps_def normalize_header_def strip_quotes_def suffix_to_prefix

section \<open>The normalizer keeps every complete row, in order\<close>

lemma rows_loop_map:
  "rows_loop cm mo yr clk i rows acc =
     acc @ map (\<lambda>(j, r). make_record cm mo yr clk j r)
             (filter (\<lambda>(j, r). 3 \<le> length r) (zip [i..<i + length rows] rows))"
proof (induction rows arbitrary: i acc)
  case Nil
  then show ?case by simp
next
  case (Cons r rows)
  have upt: "[i..<i + length (r # rows)] = i # [Suc i..<Suc i + length rows]"
    by (subst upt_rec) simp
  show ?case
    by (simp only: rows_loop.simps Cons.IH upt) (simp add: not_less)
qed

lemma processData_map:
  "processDataForLocalStorage clk g mo yr =
     map (\<lambda>(j, r). make_record (build_columnMap (hd g)) mo yr clk j r)
         (filter (\<lambda>(j, r). 3 \<le> length r) (zip [1..<length g] (tl g)))"
proof (cases "length g < 2")
  case True
  then have "tl g = []" by (cases g) auto
  with True show ?thesis by (simp add: processDataForLocalStorage_def)
next
  case False
  then have "1 + length (tl g) = length g" by (cases g) auto
  with False show ?thesis
    by (simp add: processDataForLocalStorage_def rows_loop_map)
qed

lemma length_filter_compl:
  "length (filter P xs) = length xs - length (filter (\<lambda>x. \<not> P x) xs)"
  using sum_length_filter_compl[of P xs] by simp

lemma length_filter_zip_snd:
  "length ys \<le> length xs \<Longrightarrow> length (filter (\<lambda>(j, r). P r) (zip xs ys)) = length (filter P ys)"
proof (induction ys arbitrary: xs)
  case Nil
  then show ?case by simp
next
  case (Cons y ys)
  then show ?case by (cases xs) auto
qed

text \<open>
  C5. A data row with fewer than 3 cells yields no record and every other data row
  exactly one, in the order of the rows: the output is the list of the records of the rows
  with at least 3 cells, each made from its own row and ordinal, and its length is the
  number of data rows minus the number of skipped rows.
\<close>

theorem C5_rows:
  "processDataForLocalStorage clk g mo yr =
     map (\<lambda>(j, r). make_record (build_columnMap (hd g)) mo yr clk j r)
         (filter (\<lambda>(j, r). 3 \<le> length r) (zip [1..<length g] (tl g)))
   \<and> length (processDataForLocalStorage clk g mo yr) =
       length (tl g) - length (filter (\<lambda>r. length r < 3) (tl g))"
proof -
  have len: "length (tl g) \<le> length [1..<length g]" by simp
  have "length (processDataForLocalStorage clk g mo yr) = length (filter (\<lambda>r. 3 \<le> length r) (tl g))"
    by (simp only: processData_map length_map length_filter_zip_snd[OF len])
  also have "\<dots> = length (tl g) - length (filter (\<lambda>r. \<not> 3 \<le> length r) (tl g))"
    by (rule length_filter_compl)
  finally show ?thesis by (simp add: processData_map not_le)
qed

theorem C5_rows_witness:
  "length (processDataForLocalStorage sample_clock short_row_grid ''January'' ''2025'') = 2
   \<and> map teacherId (processDataForLocalStorage sample_clock short_row_grid ''January'' ''2025'')
        = [''T001'', ''T003'']"
proof -
  have cm: "build_columnMap [''Teacher ID'', ''Name of Staff'', ''Revised Basic Pay''] TeacherId = Some 0"
    by (simp add: build_columnMap_def classify_def text_eval)
  have z: "[1..<4] = [1, 2, 3]" by (simp add: upt_rec)
  from C5_rows[of sample_clock short_row_grid "''January''" "''2025''"] show ?thesis
    by (simp add: short_row_grid_def z make_record_def cell_def text_or_def cm)
qed

section \<open>Grids without data rows\<close>

text \<open>
  C8. For a grid with fewer than 2 rows (a header alone, or nothing), the normalizer returns
  the empty list of records. It is a total function on grids of text cells: no input makes
  it raise.
\<close>

theorem C8_no_data_rows:
  "length g < 2 \<Longrightarrow> processDataForLocalStorage clk g mo yr = []"
  by (simp add: processDataForLocalStorage_def)

theorem C8_no_data_rows_witness:
  "length [[''ID'', ''Name'', ''Basic'']] < 2
   \<and> processDataForLocalStorage sample_clock [[''ID'', ''Name'', ''Basic'']] ''January'' ''2025'' = []
   \<and> processDataForLocalStorage sample_clock [] ''January'' ''2025'' = []"
  using C8_no_data_rows [of "[[''ID'', ''Name'', ''Basic'']]" sample_clock "''January''" "''2025''"]
    C8_no_data_rows [of "[]" sample_clock "''January''" "''2025''"]
  by simp

section \<open>The legacy fields repeat the exact-schema fields\<close>

lemma or_zero_not_NaN: "or_zero x \<noteq> NaN"
  by (cases x) (simp_all add: or_zero_def)

lemma number_cell_not_NaN: "number_cell r cm f \<noteq> NaN"
  by (simp add: number_cell_def or_zero_not_NaN)

lemma in_processData:
  assumes "r \<in> set (processDataForLocalStorage clk g mo yr)"
  shows "\<exists>j rw. rw \<in> set (tl g) \<and> 3 \<le> length rw \<and> r = make_record (build_columnMap (hd g)) mo yr clk j rw"
proof -
  from assms obtain j rw where "(j, rw) \<in> set (zip [1..<length g] (tl g))" "3 \<le> length rw"
    and r: "r = make_record (build_columnMap (hd g)) mo yr clk j rw"
    unfolding processData_map by auto
  then have "rw \<in> set (tl g)" by (auto dest: set_zip_rightD)
  with \<open>3 \<le> length rw\<close> r show ?thesis by blast
qed

text \<open>
  C7. In every record the normalizer produces, each legacy field equals its exact-schema
  field: basicSalary = revisedBasicPay, da = da150, hra = hra30, allowances = addAllowance,
  grossSalary = grossTotal. Both come from the same cell of the same data row, and none is
  NaN, so the equality is also the one JavaScript's comparison reports.
\<close>

theorem C7_legacy_aliases:
  assumes "r \<in> set (processDataForLocalStorage clk g mo yr)"
  shows "basicSalary r = revisedBasicPay r \<and> da r = da150 r \<and> hra r = hra30 r
     \<and> allowances r = addAllowance r \<and> grossSalary r = grossTotal r
     \<and> basicSalary r \<noteq> NaN \<and> da r \<noteq> NaN \<and> hra r \<noteq> NaN \<and> allowances r \<noteq> NaN \<and> grossSalary r \<noteq> NaN
     \<and> (\<exists>rw \<in> set (tl g).
           basicSalary r = number_cell rw (build_columnMap (hd g)) RevisedBasicPay
         \<and> da r = number_cell rw (build_columnMap (hd g)) Da150
         \<and> hra r = number_cell rw (build_columnMap (hd g)) Hra30
         \<and> allowances r = number_cell rw (build_columnMap (hd g)) AddAllowance
         \<and> grossSalary r = number_cell rw (build_columnMap (hd g)) GrossTotal)"
proof -
  from in_processData[OF assms] obtain j rw where rw: "rw \<in> set (tl g)"
    and r: "r = make_record (build_columnMap (hd g)) mo yr clk j rw" by blast
  have eqs: "basicSalary r = number_cell rw (build_columnMap (hd g)) RevisedBasicPay"
    "revisedBasicPay r = number_cell rw (build_columnMap (hd g)) RevisedBasicPay"
    "da r = number_cell rw (build_columnMap (hd g)) Da150"
    "da150 r = number_cell rw (build_columnMap (hd g)) Da150"
    "hra r = number_cell rw (build_columnMap (hd g)) Hra30"
    "hra30 r = number_cell rw (build_columnMap (hd g)) Hra30"
    "allowances r = number_cell rw (build_columnMap (hd g)) AddAllowance"
    "addAllowance r = number_cell rw (build_columnMap (hd g)) AddAllowance"
    "grossSalary r = number_cell rw (build_columnMap (hd g)) GrossTotal"
    "grossTotal r = number_cell rw (build_columnMap (hd g)) GrossTotal"
    by (simp_all add: r make_record_def)
  show ?thesis
    using rw by (auto simp: eqs number_cell_not_NaN)
qed

lemma processData_exact_headers_A:
  "processDataForLocalStorage clk exact_headers_A mo yr =
     [make_record (build_columnMap [''Teacher ID'', ''Name of Staff'', ''Revised Basic Pay'']) mo yr clk 1
        [''T001'', ''Dr. Smith'', ''50000'']]"
  by (simp add: processDataForLocalStorage_def exact_headers_A_def)

theorem C7_legacy_aliases_witness:
  "hd (processDataForLocalStorage sample_clock exact_headers_A ''January'' ''2025'')
      \<in> set (processDataForLocalStorage sample_clock exact_headers_A ''January'' ''2025'')
   \<and> basicSalary (hd (processDataForLocalStorage sample_clock exact_headers_A ''January'' ''2025''))
       = revisedBasicPay (hd (processDataForLocalStorage sample_clock exact_headers_A ''January'' ''2025''))
   \<and> grossSalary (hd (processDataForLocalStorage sample_clock exact_headers_A ''January'' ''2025''))
       = grossTotal (hd (processDataForLocalStorage sample_clock exact_headers_A ''January'' ''2025''))"
proof -
  have m: "hd (processDataForLocalStorage sample_clock exact_headers_A ''January'' ''2025'')
      \<in> set (processDataForLocalStorage sample_clock exact_headers_A ''January'' ''2025'')"
    by (simp add: processData_exact_headers_A)
  from C7_legacy_aliases[OF m] m show ?thesis by blast
qed

section \<open>The validator warns and never rejects a grid with a data row\<close>





section \<open>Inputs with fewer than two rows are rejected\<close>



lemma parse_file_cases:
  "parse_file w f =
    (if is_csv (file_name f) then
       (case file_text f of Some t \<Rightarrow> Inr (parseCSV t) | None \<Rightarrow> Inl ''Failed to read CSV file'')
     else if is_excel (file_name f) then
       (case file_buffer f of Some b \<Rightarrow> parseExcel w b | None \<Rightarrow> Inl ''Failed to read Excel file'')
     else Inl ''Unsupported file format'')"
  by (simp add: parse_file_def readFile_def parse_content_def split: option.splits)





section \<open>The fallback to local storage\<close>

lemma import_long:
  "parse_file w f = Inr g \<Longrightarrow> 2 \<le> length g \<Longrightarrow>
     importPaysheetFile w st f mo yr =
       (case primary_attempt w st g mo yr of
          (Inr out, st1) \<Rightarrow> (out, st1)
        | (Inl e, st1) \<Rightarrow>
            (case fallback_attempt w st1 g mo yr of
               (Inr out, st2) \<Rightarrow> (out, st2)
             | (Inl m, st2) \<Rightarrow> (Failure m, st2)))"
  by (simp add: importPaysheetFile_def validatePaysheetData_def)

text \<open>
  C3. Take an import whose file parses to a grid with a data row. If the primary path fails
  at any step (setting Firebase up, writing the paysheet, writing a salary slip, the local
  backup copy), the batch is computed again and written to local storage under
  \<^verbatim>\<open>paysheet_<month>_<year>\<close>, and the outcome is a success whose \<^verbatim>\<open>paysheetId\<close> is null and
  whose message names local storage; if that write throws as well, the outcome is a failure
  with the message of its error. A success of the primary path carries the paysheet key, so
  a success with a null \<^verbatim>\<open>paysheetId\<close> is always a fallback.
\<close>

theorem C3_fallback:
  assumes "parse_file w f = Inr g" and "2 \<le> length g"
  shows "(\<forall>err st1. primary_attempt w st g mo yr = (Inl err, st1) \<longrightarrow>
           (let recs = processDataForLocalStorage (clock_fallback w) g mo yr;
                key = ''paysheet_'' @ mo @ ''_'' @ yr;
                doc = fallback_doc w recs mo yr
            in (ls_error w (localStorage st1) key doc = None \<longrightarrow>
                  importPaysheetFile w st f mo yr =
                    (Success (fallback_message (length recs)) recs None,
                     st1\<lparr>localStorage := (localStorage st1)(key \<mapsto> doc)\<rparr>))
             \<and> (\<forall>m. ls_error w (localStorage st1) key doc = Some m \<longrightarrow>
                  importPaysheetFile w st f mo yr = (Failure m, st1))))
     \<and> (\<forall>out st1. primary_attempt w st g mo yr = (Inr out, st1) \<longrightarrow>
           importPaysheetFile w st f mo yr = (out, st1)
           \<and> out = Success (primary_message (length (processDataForLocalStorage (clock_primary w) g mo yr)))
                     (processDataForLocalStorage (clock_primary w) g mo yr) (Some (mo @ ''_'' @ yr)))
     \<and> (\<forall>msg recs st'. importPaysheetFile w st f mo yr = (Success msg recs None, st') \<longrightarrow>
           (\<exists>err st1. primary_attempt w st g mo yr = (Inl err, st1))
           \<and> msg = fallback_message (length recs)
           \<and> (\<exists>doc. localStorage st' (''paysheet_'' @ mo @ ''_'' @ yr) = Some doc \<and> ps_records doc = InOrder recs))"
proof (intro conjI allI impI)
  fix err st1
  assume p: "primary_attempt w st g mo yr = (Inl err, st1)"
  show "let recs = processDataForLocalStorage (clock_fallback w) g mo yr;
                key = ''paysheet_'' @ mo @ ''_'' @ yr;
                doc = fallback_doc w recs mo yr
            in (ls_error w (localStorage st1) key doc = None \<longrightarrow>
                  importPaysheetFile w st f mo yr =
                    (Success (fallback_message (length recs)) recs None,
                     st1\<lparr>localStorage := (localStorage st1)(key \<mapsto> doc)\<rparr>))
             \<and> (\<forall>m. ls_error w (localStorage st1) key doc = Some m \<longrightarrow>
                  importPaysheetFile w st f mo yr = (Failure m, st1))"
    by (simp add: import_long[OF assms] p fallback_attempt_def Let_def)
next
  fix out st1
  assume p: "primary_attempt w st g mo yr = (Inr out, st1)"
  show "importPaysheetFile w st f mo yr = (out, st1)"
    by (simp add: import_long[OF assms] p)
  from p show "out = Success (primary_message (length (processDataForLocalStorage (clock_primary w) g mo yr)))
                     (processDataForLocalStorage (clock_primary w) g mo yr) (Some (mo @ ''_'' @ yr))"
    by (auto simp: primary_attempt_def Let_def split: option.splits prod.splits)
next
  fix msg recs st'
  assume i: "importPaysheetFile w st f mo yr = (Success msg recs None, st')"
  obtain res st1 where p: "primary_attempt w st g mo yr = (res, st1)" by (cases "primary_attempt w st g mo yr")
  have notInr: "\<And>out. res \<noteq> Inr out"
  proof
    fix out assume "res = Inr out"
    with p have p': "primary_attempt w st g mo yr = (Inr out, st1)" by simp
    then have "out = Success msg recs None" using i by (simp add: import_long[OF assms])
    moreover from p' have "\<exists>a b c. out = Success a b (Some c)"
      by (auto simp: primary_attempt_def Let_def split: option.splits prod.splits)
    ultimately show False by auto
  qed
  then obtain err where res: "res = Inl err" by (cases res) auto
  with p show "\<exists>err st1. primary_attempt w st g mo yr = (Inl err, st1)" by blast
  from i p res have fb: "(case fallback_attempt w st1 g mo yr of
               (Inr out, st2) \<Rightarrow> (out, st2)
             | (Inl m, st2) \<Rightarrow> (Failure m, st2)) = (Success msg recs None, st')"
    by (simp add: import_long[OF assms])
  then show "msg = fallback_message (length recs)"
    by (auto simp: fallback_attempt_def Let_def split: option.splits)
  from fb show "\<exists>doc. localStorage st' (''paysheet_'' @ mo @ ''_'' @ yr) = Some doc \<and> ps_records doc = InOrder recs"
    by (auto simp: fallback_attempt_def fallback_doc_def Let_def split: option.splits)
qed

lemma parse_sample_csv: "parse_file w sample_csv = Inr scenario_A"
  by (simp add: parse_file_def readFile_def sample_csv_def is_csv_def scenario_A_def
      parse_content_def parseCSV_def parse_line_def text_eval)

lemma processData_scenario_A:
  "processDataForLocalStorage clk scenario_A mo yr =
     [make_record (build_columnMap [''ID'', ''Name'', ''Basic'']) mo yr clk 1
        [''T001'', ''Dr. Smith'', ''50000'']]"
  by (simp add: processDataForLocalStorage_def scenario_A_def)

lemma primary_offline:
  "primary_attempt sample_world st g mo yr = (Inl ''firebase is not defined'', st)"
  "primary_attempt quota_world st g mo yr = (Inl ''firebase is not defined'', st)"
  by (simp_all add: primary_attempt_def sample_world_def quota_world_def)

lemma primary_online:
  "\<exists>out st1. primary_attempt online_world empty_stores scenario_A ''January'' ''2025'' = (Inr out, st1)"
  by (simp add: primary_attempt_def online_world_def sample_world_def processData_scenario_A Let_def)

lemma primary_slip_failure:
  "\<exists>st1. primary_attempt slip_failure_world empty_stores scenario_A ''January'' ''2025''
       = (Inl ''PERMISSION_DENIED: Permission denied'', st1)
     \<and> firebaseDB st1 ''paysheets/January_2025'' \<noteq> None \<and> localStorage st1 = Map.empty"
  by (simp add: primary_attempt_def slip_failure_world_def sample_world_def processData_scenario_A
      empty_stores_def Let_def)

theorem C3_fallback_witness:
  "parse_file sample_world sample_csv = Inr scenario_A \<and> 2 \<le> length scenario_A
   \<and> importPaysheetFile sample_world empty_stores sample_csv ''January'' ''2025'' =
        (Success ''Successfully imported 1 paysheet records to local storage (Firebase backup failed)''
           (processDataForLocalStorage sample_clock scenario_A ''January'' ''2025'') None,
         empty_stores\<lparr>localStorage := [''paysheet_January_2025'' \<mapsto>
           fallback_doc sample_world (processDataForLocalStorage sample_clock scenario_A ''January'' ''2025'')
             ''January'' ''2025'']\<rparr>)
   \<and> importPaysheetFile quota_world empty_stores sample_csv ''January'' ''2025'' =
        (Failure ''The quota has been exceeded.'', empty_stores)
   \<and> (\<exists>st'. importPaysheetFile slip_failure_world empty_stores sample_csv ''January'' ''2025'' =
        (Success ''Successfully imported 1 paysheet records to local storage (Firebase backup failed)''
           (processDataForLocalStorage sample_clock scenario_A ''January'' ''2025'') None, st')
        \<and> firebaseDB st' ''paysheets/January_2025'' \<noteq> None)
   \<and> (\<exists>st'. importPaysheetFile online_world empty_stores sample_csv ''January'' ''2025'' =
        (Success ''Successfully imported 1 paysheet records to Firebase database''
           (processDataForLocalStorage sample_clock scenario_A ''January'' ''2025'') (Some ''January_2025''), st'))"
proof -
  have len: "2 \<le> length scenario_A" by (simp add: scenario_A_def)
  have n1: "nat_to_string (Suc 0) = ''1''" by (simp add: nat_to_string.simps)
  have clk: "clock_fallback sample_world = sample_clock" "clock_fallback quota_world = sample_clock"
    "clock_fallback slip_failure_world = sample_clock" "clock_primary online_world = sample_clock"
    by (simp_all add: sample_world_def quota_world_def slip_failure_world_def online_world_def)
  have ls: "\<And>s k v. ls_error sample_world s k v = None"
    "\<And>s k v. ls_error slip_failure_world s k v = None"
    "\<And>s k v. ls_error quota_world s k v = Some ''The quota has been exceeded.''"
    by (simp_all add: sample_world_def quota_world_def slip_failure_world_def)
  have docs: "fallback_doc slip_failure_world = fallback_doc sample_world"
    by (simp add: fallback_doc_def fun_eq_iff slip_failure_world_def sample_world_def)
  note c3 = C3_fallback[OF parse_sample_csv len, of _ empty_stores "''January''" "''2025''"]
  have a: "importPaysheetFile sample_world empty_stores sample_csv ''January'' ''2025'' =
        (Success ''Successfully imported 1 paysheet records to local storage (Firebase backup failed)''
           (processDataForLocalStorage sample_clock scenario_A ''January'' ''2025'') None,
         empty_stores\<lparr>localStorage := [''paysheet_January_2025'' \<mapsto>
           fallback_doc sample_world (processDataForLocalStorage sample_clock scenario_A ''January'' ''2025'')
             ''January'' ''2025'']\<rparr>)"
    using c3[of sample_world, THEN conjunct1] primary_offline(1)[of empty_stores scenario_A "''January''" "''2025''"]
    by (simp add: Let_def clk ls fallback_message_def processData_scenario_A n1 empty_stores_def)
  have b: "importPaysheetFile quota_world empty_stores sample_csv ''January'' ''2025'' =
        (Failure ''The quota has been exceeded.'', empty_stores)"
    using c3[of quota_world, THEN conjunct1] primary_offline(2)[of empty_stores scenario_A "''January''" "''2025''"]
    by (simp add: Let_def clk ls)
  from primary_slip_failure obtain st1 where
    p: "primary_attempt slip_failure_world empty_stores scenario_A ''January'' ''2025''
       = (Inl ''PERMISSION_DENIED: Permission denied'', st1)"
    and fb: "firebaseDB st1 ''paysheets/January_2025'' \<noteq> None" by blast
  have c: "\<exists>st'. importPaysheetFile slip_failure_world empty_stores sample_csv ''January'' ''2025'' =
        (Success ''Successfully imported 1 paysheet records to local storage (Firebase backup failed)''
           (processDataForLocalStorage sample_clock scenario_A ''January'' ''2025'') None, st')
        \<and> firebaseDB st' ''paysheets/January_2025'' \<noteq> None"
    using c3[of slip_failure_world, THEN conjunct1] p fb
    by (simp add: Let_def clk ls fallback_message_def processData_scenario_A n1)
  from primary_online obtain out st2 where
    q: "primary_attempt online_world empty_stores scenario_A ''January'' ''2025'' = (Inr out, st2)"
    by blast
  have d: "\<exists>st'. importPaysheetFile online_world empty_stores sample_csv ''January'' ''2025'' =
        (Success ''Successfully imported 1 paysheet records to Firebase database''
           (processDataForLocalStorage sample_clock scenario_A ''January'' ''2025'') (Some ''January_2025''), st')"
    using c3[of online_world, THEN conjunct2, THEN conjunct1] q
    by (simp add: clk primary_message_def processData_scenario_A n1)
  from parse_sample_csv len a b c d show ?thesis by blast
qed

section \<open>Scenario A: which headers the normalizer reads\<close>

lemmas num_eval = parseFloat_def parse_unsigned_def parse_exponent_def exp_digits_def
  digits_val_def digit_val_def is_digit_def is_ws_def

lemma parseFloat_undefined: "parseFloat ''undefined'' = NaN"
  by (simp add: num_eval)

lemma parseFloat_50000: "parseFloat ''50000'' = Fin 50000"
proof -
  have "to_double (of_int 50000) = Fin (of_int 50000)"
    by (rule to_double_small_int) simp
  then show ?thesis by (simp add: num_eval)
qed

lemma columnMap_scenario_A:
  "build_columnMap [''ID'', ''Name'', ''Basic''] f = None"
  by (simp add: build_columnMap_def classify_def text_eval)

lemma columnMap_exact_headers:
  "build_columnMap [''Teacher ID'', ''Name of Staff'', ''Revised Basic Pay''] TeacherId = Some 0"
  "build_columnMap [''Teacher ID'', ''Name of Staff'', ''Revised Basic Pay''] RevisedBasicPay = Some 2"
  by (simp_all add: build_columnMap_def classify_def text_eval)

lemma nat_to_string_1: "nat_to_string (Suc 0) = ''1''"
  by (simp add: nat_to_string.simps)

lemmas record_eval = make_record_def cell_def text_or_def number_cell_def parseFloat_cell_def
  or_zero_def getMonthNumber_def nat_to_string_1

text \<open>
  C1, as stated, fails: for the grid of the rows \<^verbatim>\<open>ID,Name,Basic\<close> and
  \<^verbatim>\<open>T001,Dr. Smith,50000\<close> the one record has the identifier \<^verbatim>\<open>1_January_2025\<close> and the
  basicSalary 0, not \<^verbatim>\<open>T001_January_2025\<close> and 50000.
\<close>

theorem C1_scenario_A_counterexample:
  "map id_rec (processDataForLocalStorage sample_clock scenario_A ''January'' ''2025'') = [''1_January_2025'']
   \<and> map basicSalary (processDataForLocalStorage sample_clock scenario_A ''January'' ''2025'') = [Fin 0]
   \<and> map id_rec (processDataForLocalStorage sample_clock scenario_A ''January'' ''2025'') \<noteq> [''T001_January_2025'']
   \<and> map basicSalary (processDataForLocalStorage sample_clock scenario_A ''January'' ''2025'') \<noteq> [Fin 50000]"
  by (simp add: processData_scenario_A columnMap_scenario_A record_eval parseFloat_undefined)

text \<open>
  C1, amended. For that grid and the period January 2025 the normalizer returns exactly one
  record; its identifier is \<^verbatim>\<open>1_January_2025\<close> (the row ordinal, as no header contains both
  "teacher" and "id"), its teacherId is empty, its basicSalary is 0 (no header contains both
  "revised" and "basic") and its monthNum is "01". Under the headers
  \<^verbatim>\<open>Teacher ID,Name of Staff,Revised Basic Pay\<close> the same data row gives the identifier
  \<^verbatim>\<open>T001_January_2025\<close>, the basicSalary 50000 and the monthNum "01".
\<close>

theorem C1_scenario_A_amended:
  "length (processDataForLocalStorage clk scenario_A ''January'' ''2025'') = 1
   \<and> id_rec (hd (processDataForLocalStorage clk scenario_A ''January'' ''2025'')) = ''1_January_2025''
   \<and> teacherId (hd (processDataForLocalStorage clk scenario_A ''January'' ''2025'')) = []
   \<and> basicSalary (hd (processDataForLocalStorage clk scenario_A ''January'' ''2025'')) = Fin 0
   \<and> monthNum (hd (processDataForLocalStorage clk scenario_A ''January'' ''2025'')) = ''01''
   \<and> length (processDataForLocalStorage clk exact_headers_A ''January'' ''2025'') = 1
   \<and> id_rec (hd (processDataForLocalStorage clk exact_headers_A ''January'' ''2025'')) = ''T001_January_2025''
   \<and> basicSalary (hd (processDataForLocalStorage clk exact_headers_A ''January'' ''2025'')) = Fin 50000
   \<and> monthNum (hd (processDataForLocalStorage clk exact_headers_A ''January'' ''2025'')) = ''01''"
  by (simp add: processData_scenario_A columnMap_scenario_A record_eval parseFloat_undefined
      processData_exact_headers_A columnMap_exact_headers parseFloat_50000)

section \<open>Header matching: the validator's aliases and the normalizer's column map\<close>

lemma includes_str_sublist: "includes_str s p \<longleftrightarrow> sublist p s"
proof (induction s)
  case Nil
  then show ?case by simp
next
  case (Cons c s)
  then show ?case by (cases p) (simp_all add: sublist_Cons_right)
qed

lemma found_iff:
  "found nh pats \<longleftrightarrow>
     (\<exists>h\<in>set nh. \<exists>p\<in>set pats.
        includes_str h (strip_seps p) \<or> includes_str (strip_seps p) h)"
  by (simp add: found_def list_ex_iff)

lemma headers_loop_Some:
  "headers_loop k hs cm f = Some n \<longleftrightarrow>
     (\<exists>i<length hs. n = k + i \<and> header_field (hs ! i) = Some f
        \<and> (\<forall>j. i < j \<and> j < length hs \<longrightarrow> header_field (hs ! j) \<noteq> Some f))
     \<or> (cm f = Some n \<and> (\<forall>j<length hs. header_field (hs ! j) \<noteq> Some f))"
proof (induction hs arbitrary: k cm)
  case Nil
  then show ?case by simp
next
  case (Cons h hs)
  let ?cm = "case header_field h of None \<Rightarrow> cm | Some g \<Rightarrow> cm(g \<mapsto> k)"
  have step: "headers_loop k (h # hs) cm = headers_loop (Suc k) hs ?cm"
    by (simp add: header_field_def Let_def)
  have after: "\<And>i. (\<forall>j. Suc i < j \<and> j < length (h # hs) \<longrightarrow> header_field ((h # hs) ! j) \<noteq> Some f)
      \<longleftrightarrow> (\<forall>j. i < j \<and> j < length hs \<longrightarrow> header_field (hs ! j) \<noteq> Some f)"
  proof -
    fix i
    show "(\<forall>j. Suc i < j \<and> j < length (h # hs) \<longrightarrow> header_field ((h # hs) ! j) \<noteq> Some f)
      \<longleftrightarrow> (\<forall>j. i < j \<and> j < length hs \<longrightarrow> header_field (hs ! j) \<noteq> Some f)"
    proof
      assume a: "\<forall>j. Suc i < j \<and> j < length (h # hs) \<longrightarrow> header_field ((h # hs) ! j) \<noteq> Some f"
      show "\<forall>j. i < j \<and> j < length hs \<longrightarrow> header_field (hs ! j) \<noteq> Some f"
      proof (intro allI impI)
        fix j assume "i < j \<and> j < length hs"
        with a[rule_format, of "Suc j"] show "header_field (hs ! j) \<noteq> Some f" by simp
      qed
    next
      assume a: "\<forall>j. i < j \<and> j < length hs \<longrightarrow> header_field (hs ! j) \<noteq> Some f"
      show "\<forall>j. Suc i < j \<and> j < length (h # hs) \<longrightarrow> header_field ((h # hs) ! j) \<noteq> Some f"
      proof (intro allI impI)
        fix j assume j: "Suc i < j \<and> j < length (h # hs)"
        then obtain j' where "j = Suc j'" by (cases j) auto
        with j a[rule_format, of j'] show "header_field ((h # hs) ! j) \<noteq> Some f" by simp
      qed
    qed
  qed
  have after0: "(\<forall>j. 0 < j \<and> j < length (h # hs) \<longrightarrow> header_field ((h # hs) ! j) \<noteq> Some f)
      \<longleftrightarrow> (\<forall>j<length hs. header_field (hs ! j) \<noteq> Some f)"
  proof
    assume a: "\<forall>j. 0 < j \<and> j < length (h # hs) \<longrightarrow> header_field ((h # hs) ! j) \<noteq> Some f"
    show "\<forall>j<length hs. header_field (hs ! j) \<noteq> Some f"
    proof (intro allI impI)
      fix j assume "j < length hs"
      with a[rule_format, of "Suc j"] show "header_field (hs ! j) \<noteq> Some f" by simp
    qed
  next
    assume a: "\<forall>j<length hs. header_field (hs ! j) \<noteq> Some f"
    show "\<forall>j. 0 < j \<and> j < length (h # hs) \<longrightarrow> header_field ((h # hs) ! j) \<noteq> Some f"
    proof (intro allI impI)
      fix j assume j: "0 < j \<and> j < length (h # hs)"
      then obtain j' where "j = Suc j'" by (cases j) auto
      with j a[rule_format, of j'] show "header_field ((h # hs) ! j) \<noteq> Some f" by simp
    qed
  qed
  have cm': "?cm f = Some n \<longleftrightarrow> (header_field h = Some f \<and> n = k) \<or> (header_field h \<noteq> Some f \<and> cm f = Some n)"
    by (auto split: option.splits)
  define Q where "Q \<longleftrightarrow> (\<forall>j<length hs. header_field (hs ! j) \<noteq> Some f)"
  define E where "E \<longleftrightarrow> (\<exists>i<length hs. n = Suc k + i \<and> header_field (hs ! i) = Some f
        \<and> (\<forall>j. i < j \<and> j < length hs \<longrightarrow> header_field (hs ! j) \<noteq> Some f))"
  have none: "(\<forall>j<length (h # hs). header_field ((h # hs) ! j) \<noteq> Some f)
      \<longleftrightarrow> header_field h \<noteq> Some f \<and> Q"
    unfolding Q_def by (auto simp: less_Suc_eq_0_disj)
  have ex: "(\<exists>i<length (h # hs). n = k + i \<and> header_field ((h # hs) ! i) = Some f
        \<and> (\<forall>j. i < j \<and> j < length (h # hs) \<longrightarrow> header_field ((h # hs) ! j) \<noteq> Some f))
      \<longleftrightarrow> (n = k \<and> header_field h = Some f \<and> Q) \<or> E"
  proof -
    have "(\<exists>i<length (h # hs). n = k + i \<and> header_field ((h # hs) ! i) = Some f
        \<and> (\<forall>j. i < j \<and> j < length (h # hs) \<longrightarrow> header_field ((h # hs) ! j) \<noteq> Some f))
      \<longleftrightarrow> (n = k + 0 \<and> header_field ((h # hs) ! 0) = Some f
        \<and> (\<forall>j. 0 < j \<and> j < length (h # hs) \<longrightarrow> header_field ((h # hs) ! j) \<noteq> Some f))
       \<or> (\<exists>i<length hs. n = k + Suc i \<and> header_field ((h # hs) ! Suc i) = Some f
        \<and> (\<forall>j. Suc i < j \<and> j < length (h # hs) \<longrightarrow> header_field ((h # hs) ! j) \<noteq> Some f))"
      (is "?L \<longleftrightarrow> ?A \<or> ?B")
    proof
      assume ?L
      then obtain i where i: "i < length (h # hs)" "n = k + i" "header_field ((h # hs) ! i) = Some f"
        "\<forall>j. i < j \<and> j < length (h # hs) \<longrightarrow> header_field ((h # hs) ! j) \<noteq> Some f" by blast
      show "?A \<or> ?B"
      proof (cases i)
        case 0
        with i show ?thesis by simp
      next
        case (Suc i')
        with i have "i' < length hs \<and> n = k + Suc i' \<and> header_field ((h # hs) ! Suc i') = Some f
          \<and> (\<forall>j. Suc i' < j \<and> j < length (h # hs) \<longrightarrow> header_field ((h # hs) ! j) \<noteq> Some f)"
          by simp
        then show ?thesis by blast
      qed
    next
      assume "?A \<or> ?B"
      then show ?L
      proof
        assume ?A
        then show ?L by (intro exI[of _ 0]) simp
      next
        assume ?B
        then obtain i where "i < length hs" "n = k + Suc i" "header_field ((h # hs) ! Suc i) = Some f"
          "\<forall>j. Suc i < j \<and> j < length (h # hs) \<longrightarrow> header_field ((h # hs) ! j) \<noteq> Some f" by blast
        then show ?L by (intro exI[of _ "Suc i"]) simp
      qed
    qed
    then show ?thesis
      unfolding after after0 E_def Q_def by simp
  qed
  show ?case
    unfolding step Cons.IH[of "Suc k" ?cm] none ex cm' E_def[symmetric] Q_def[symmetric]
    by blast
qed

lemma build_columnMap_Some:
  "build_columnMap hs f = Some i \<longleftrightarrow>
     i < length hs \<and> header_field (hs ! i) = Some f
     \<and> (\<forall>j. i < j \<and> j < length hs \<longrightarrow> header_field (hs ! j) \<noteq> Some f)"
  unfolding build_columnMap_def headers_loop_Some by auto

lemma columnMap_staff_full:
  "build_columnMap [''Staff ID'', ''Full Name''] f = None"
  by (simp add: build_columnMap_def classify_def text_eval)

lemma validate_staff_full:
  "validatePaysheetData (Some [[''Staff ID'', ''Full Name''], r]) = Inr (True, [''Basic Salary''])"
  by (simp add: validatePaysheetData_def found_def requiredColumns_def text_eval)

lemma header_fields_teacher_columns:
  "header_field ''Teacher ID'' = Some TeacherId"
  "header_field ''Emp Teacher ID'' = Some TeacherId"
  "header_field ''Name of Staff'' = Some TeacherName"
  by (simp_all add: header_field_def classify_def text_eval)

lemma columnMap_teacher_columns:
  "build_columnMap [''Teacher ID'', ''Emp Teacher ID'', ''Name of Staff''] TeacherId = Some 1"
  by (simp add: build_columnMap_def classify_def text_eval)

text \<open>
  C2, as stated, fails: the header row \<^verbatim>\<open>Staff ID\<close>, \<^verbatim>\<open>Full Name\<close> maps neither the identifier
  field nor the name field to a column, and of two columns that both match the identifier
  field the right one is recorded, not the left one.
\<close>

theorem C2_column_map_counterexample:
  "build_columnMap [''Staff ID'', ''Full Name''] TeacherId \<noteq> Some 0
   \<and> build_columnMap [''Staff ID'', ''Full Name''] TeacherName \<noteq> Some 1
   \<and> build_columnMap [''Teacher ID'', ''Emp Teacher ID'', ''Name of Staff''] TeacherId \<noteq> Some 0
   \<and> build_columnMap [''Teacher ID'', ''Emp Teacher ID'', ''Name of Staff''] TeacherId = Some 1"
  by (simp add: columnMap_staff_full columnMap_teacher_columns)

text \<open>
  C2, amended. The validator counts a required field (identifier, name, basic pay) as
  present exactly when, for some header and some alias of the field, the alias is a
  substring of the normalized header or the normalized header is a substring of the alias;
  it only warns and records no column. The column mapping is built apart from it, by the
  token rules of the normalizer's header loop, and there the rightmost matching column is the
  one recorded. The header row \<^verbatim>\<open>Staff ID\<close>, \<^verbatim>\<open>Full Name\<close> passes the validator for the identifier
  and the name (only basic pay is warned about) and leaves every field of the column mapping
  unmapped.
\<close>

theorem C2_header_matching:
  "(found (map normalize_header hs) pats \<longleftrightarrow>
      (\<exists>h\<in>set hs. \<exists>p\<in>set pats.
         sublist (strip_seps p) (normalize_header h) \<or> sublist (normalize_header h) (strip_seps p)))
   \<and> (build_columnMap hs' f = Some i \<longleftrightarrow>
        i < length hs' \<and> header_field (hs' ! i) = Some f
        \<and> (\<forall>j. i < j \<and> j < length hs' \<longrightarrow> header_field (hs' ! j) \<noteq> Some f))
   \<and> validatePaysheetData (Some [[''Staff ID'', ''Full Name''], r]) = Inr (True, [''Basic Salary''])
   \<and> build_columnMap [''Staff ID'', ''Full Name''] g = None"
  by (simp add: found_iff includes_str_sublist build_columnMap_Some columnMap_staff_full
      validate_staff_full)

theorem C2_header_matching_witness:
  "found (map normalize_header [''Staff ID'', ''Full Name''])
      [''teacher_id'', ''teacherid'', ''id'', ''emp_id'', ''employee_id'', ''staff_id'']
   \<and> build_columnMap [''Teacher ID'', ''Emp Teacher ID'', ''Name of Staff''] TeacherId = Some 1
   \<and> header_field ([''Teacher ID'', ''Emp Teacher ID'', ''Name of Staff''] ! 1) = Some TeacherId
   \<and> header_field ([''Teacher ID'', ''Emp Teacher ID'', ''Name of Staff''] ! 0) = Some TeacherId"
proof -
  note c2 = C2_header_matching[of "[''Staff ID'', ''Full Name'']"
      "[''teacher_id'', ''teacherid'', ''id'', ''emp_id'', ''employee_id'', ''staff_id'']"
      "[''Teacher ID'', ''Emp Teacher ID'', ''Name of Staff'']" TeacherId 1]
  have n: "normalize_header ''Staff ID'' = ''staffid''" "strip_seps ''staff_id'' = ''staffid''"
    by (simp_all add: text_eval)
  have "sublist (strip_seps ''staff_id'') (normalize_header ''Staff ID'')"
    by (simp add: n)
  then have a: "found (map normalize_header [''Staff ID'', ''Full Name''])
      [''teacher_id'', ''teacherid'', ''id'', ''emp_id'', ''employee_id'', ''staff_id'']"
    using c2[THEN conjunct1] by simp
  have b: "header_field ([''Teacher ID'', ''Emp Teacher ID'', ''Name of Staff''] ! 1) = Some TeacherId"
    using c2[THEN conjunct2, THEN conjunct1] columnMap_teacher_columns by blast
  from a b columnMap_teacher_columns header_fields_teacher_columns(1) show ?thesis by simp
qed

section \<open>The batch summary: sums of doubles\<close>


lemma double_0_1: "to_double (1 / 10) = Fin (3602879701896397 / 36028797018963968)"
proof -
  have "to_double (1 / 10) = Fin (of_int 7205759403792794 * pow2 (-4 - 52))"
  proof (rule to_double_eqI)
    show "round_half_even (1 / 10 / pow2 (-4 - 52)) = 7205759403792794"
      by (rule round_half_even_eqI) (simp_all add: pow2_def)
  qed (simp_all add: pow2_def)
  then show ?thesis by (simp add: pow2_def)
qed

lemma double_0_2: "to_double (1 / 5) = Fin (3602879701896397 / 18014398509481984)"
proof -
  have "to_double (1 / 5) = Fin (of_int 7205759403792794 * pow2 (-3 - 52))"
  proof (rule to_double_eqI)
    show "round_half_even (1 / 5 / pow2 (-3 - 52)) = 7205759403792794"
      by (rule round_half_even_eqI) (simp_all add: pow2_def)
  qed (simp_all add: pow2_def)
  then show ?thesis by (simp add: pow2_def)
qed

lemma double_0_3: "to_double (3 / 10) = Fin (5404319552844595 / 18014398509481984)"
proof -
  have "to_double (3 / 10) = Fin (of_int 5404319552844595 * pow2 (-2 - 52))"
  proof (rule to_double_eqI)
    show "round_half_even (3 / 10 / pow2 (-2 - 52)) = 5404319552844595"
      by (rule round_half_even_eqI) (simp_all add: pow2_def)
  qed (simp_all add: pow2_def)
  then show ?thesis by (simp add: pow2_def)
qed

lemma add_0_1_0_2: "js_add (Fin (3602879701896397 / 36028797018963968)) (Fin (3602879701896397 / 18014398509481984)) = Fin (1351079888211149 / 4503599627370496)"
proof (rule js_add_Fin_eqI)
  show "round_half_even ((3602879701896397 / 36028797018963968 + 3602879701896397 / 18014398509481984) / pow2 (-2 - 52)) = 5404319552844596"
    by (rule round_half_even_tie_up) (simp_all add: pow2_def)
  show "1351079888211149 / 4503599627370496 = of_int 5404319552844596 * pow2 (-2 - 52)"
    by (simp add: pow2_def)
qed (simp_all add: pow2_def)

lemma add_0_1_0_2_0_3: "js_add (Fin (1351079888211149 / 4503599627370496)) (Fin (5404319552844595 / 18014398509481984)) = Fin (1351079888211149 / 2251799813685248)"
proof (rule js_add_Fin_eqI)
  show "round_half_even ((1351079888211149 / 4503599627370496 + 5404319552844595 / 18014398509481984) / pow2 (-1 - 52)) = 5404319552844596"
    by (rule round_half_even_tie_up) (simp_all add: pow2_def)
  show "1351079888211149 / 2251799813685248 = of_int 5404319552844596 * pow2 (-1 - 52)"
    by (simp add: pow2_def)
qed (simp_all add: pow2_def)

lemma add_0_3_0_2: "js_add (Fin (5404319552844595 / 18014398509481984)) (Fin (3602879701896397 / 18014398509481984)) = Fin (1 / 2)"
proof (rule js_add_Fin_eqI)
  show "round_half_even ((5404319552844595 / 18014398509481984 + 3602879701896397 / 18014398509481984) / pow2 (-1 - 52)) = 4503599627370496"
    by (rule round_half_even_eqI) (simp_all add: pow2_def)
  show "1 / 2 = of_int 4503599627370496 * pow2 (-1 - 52)"
    by (simp add: pow2_def)
qed (simp_all add: pow2_def)

lemma add_0_3_0_2_0_1: "js_add (Fin (1 / 2)) (Fin (3602879701896397 / 36028797018963968)) = Fin (5404319552844595 / 9007199254740992)"
proof (rule js_add_Fin_eqI)
  show "round_half_even ((1 / 2 + 3602879701896397 / 36028797018963968) / pow2 (-1 - 52)) = 5404319552844595"
    by (rule round_half_even_eqI) (simp_all add: pow2_def)
  show "5404319552844595 / 9007199254740992 = of_int 5404319552844595 * pow2 (-1 - 52)"
    by (simp add: pow2_def)
qed (simp_all add: pow2_def)

lemma parseFloat_tenths:
  "parseFloat ''0.1'' = Fin (3602879701896397 / 36028797018963968)"
  "parseFloat ''0.2'' = Fin (3602879701896397 / 18014398509481984)"
  "parseFloat ''0.3'' = Fin (5404319552844595 / 18014398509481984)"
  using double_0_1 double_0_2 double_0_3 by (simp_all add: num_eval pow10_def)


lemma foldl_js_add_exact:
  assumes "list_all whole_amount xs"
    and "\<bar>a\<bar> + sum_list (map (\<lambda>x. \<bar>amount x\<bar>) xs) \<le> 2 ^ 53"
    and "of_int \<lfloor>a\<rfloor> = a"
  shows "foldl js_add (Fin a) xs = Fin (a + sum_list (map amount xs))"
  using assms
proof (induction xs arbitrary: a)
  case Nil
  then show ?case by simp
next
  case (Cons x xs)
  from Cons.prems(1) obtain q where x: "x = Fin q" and q: "of_int \<lfloor>q\<rfloor> = q"
    by (cases x) (auto simp: whole_amount_def)
  have ax: "amount x = q" by (simp add: x amount_def)
  have nonneg: "0 \<le> sum_list (map (\<lambda>x. \<bar>amount x\<bar>) xs)"
    by (rule sum_list_nonneg) auto
  have bound: "\<bar>a\<bar> + \<bar>q\<bar> + sum_list (map (\<lambda>x. \<bar>amount x\<bar>) xs) \<le> 2 ^ 53"
    using Cons.prems(2) by (simp add: x amount_def)
  have aq: "a + q = of_int (\<lfloor>a\<rfloor> + \<lfloor>q\<rfloor>)"
    by (metis Cons.prems(3) q of_int_add)
  have "\<bar>a + q\<bar> \<le> 2 ^ 53" using bound nonneg by linarith
  then have small: "\<bar>\<lfloor>a\<rfloor> + \<lfloor>q\<rfloor>\<bar> \<le> 2 ^ 53"
    unfolding aq by (metis of_int_abs of_int_le_numeral_power_cancel_iff)
  have step: "js_add (Fin a) x = Fin (a + q)"
    unfolding x js_add.simps aq by (rule to_double_small_int[OF small])
  have whole': "of_int \<lfloor>a + q\<rfloor> = a + q" unfolding aq by simp
  have bound': "\<bar>a + q\<bar> + sum_list (map (\<lambda>x. \<bar>amount x\<bar>) xs) \<le> 2 ^ 53"
    using bound by linarith
  have all': "list_all whole_amount xs" using Cons.prems(1) by simp
  have "foldl js_add (Fin a) (x # xs) = foldl js_add (Fin (a + q)) xs"
    by (simp only: foldl.simps step)
  also have "\<dots> = Fin (a + q + sum_list (map amount xs))"
    by (rule Cons.IH[OF all' bound' whole'])
  finally show ?case using ax by (simp add: add.assoc)
qed

lemma foldl_js_add_perm:
  assumes "mset ys = mset xs" "list_all whole_amount xs"
    and "sum_list (map (\<lambda>x. \<bar>amount x\<bar>) xs) \<le> 2 ^ 53"
  shows "foldl js_add (Fin 0) ys = foldl js_add (Fin 0) xs"
proof -
  have set: "set ys = set xs" using assms(1) by (rule mset_eq_setD)
  have all: "list_all whole_amount ys" using assms(2) set by (simp add: list_all_iff)
  have "mset (map (\<lambda>x. \<bar>amount x\<bar>) ys) = mset (map (\<lambda>x. \<bar>amount x\<bar>) xs)"
    using assms(1) by simp
  then have s1: "sum_list (map (\<lambda>x. \<bar>amount x\<bar>) ys) = sum_list (map (\<lambda>x. \<bar>amount x\<bar>) xs)"
    by (metis sum_mset_sum_list)
  have "mset (map amount ys) = mset (map amount xs)" using assms(1) by simp
  then have s2: "sum_list (map amount ys) = sum_list (map amount xs)"
    by (metis sum_mset_sum_list)
  have "foldl js_add (Fin 0) ys = Fin (0 + sum_list (map amount ys))"
    by (rule foldl_js_add_exact[OF all]) (use assms(3) in \<open>simp_all add: s1\<close>)
  moreover have "foldl js_add (Fin 0) xs = Fin (0 + sum_list (map amount xs))"
    by (rule foldl_js_add_exact[OF assms(2)]) (use assms(3) in simp_all)
  ultimately show ?thesis by (simp add: s2)
qed

lemma make_summary_maps:
  "make_summary rs =
    \<lparr> totalRecords = length rs,
      totalGross = foldl js_add (Fin 0) (map grossSalary rs),
      totalDeductionsSum = foldl js_add (Fin 0) (map totalDeductions rs),
      totalNet = foldl js_add (Fin 0) (map netPay rs) \<rparr>"
  by (simp add: make_summary_def foldl_map)

lemma processData_amounts:
  "map grossSalary (processDataForLocalStorage clk g mo yr) =
     map (\<lambda>(j, r). number_cell r (build_columnMap (hd g)) GrossTotal)
       (filter (\<lambda>(j, r). 3 \<le> length r) (zip [1..<length g] (tl g)))"
  "map totalDeductions (processDataForLocalStorage clk g mo yr) =
     map (\<lambda>(j, r). number_cell r (build_columnMap (hd g)) TotalDeductions)
       (filter (\<lambda>(j, r). 3 \<le> length r) (zip [1..<length g] (tl g)))"
  "map netPay (processDataForLocalStorage clk g mo yr) =
     map (\<lambda>(j, r). number_cell r (build_columnMap (hd g)) NetPay)
       (filter (\<lambda>(j, r). 3 \<le> length r) (zip [1..<length g] (tl g)))"
  by (simp_all add: processData_map make_record_def case_prod_unfold)

lemma summary_clock_independent:
  "make_summary (processDataForLocalStorage clk1 g mo yr)
     = make_summary (processDataForLocalStorage clk2 g mo yr)"
  unfolding make_summary_maps processData_amounts
  by (simp add: processData_map)

lemma add_0_0_1: "js_add (Fin (0)) (Fin (3602879701896397 / 36028797018963968)) = Fin (3602879701896397 / 36028797018963968)"
proof (rule js_add_Fin_eqI)
  show "round_half_even ((0 + 3602879701896397 / 36028797018963968) / pow2 (-4 - 52)) = 7205759403792794"
    by (rule round_half_even_eqI) (simp_all add: pow2_def)
  show "3602879701896397 / 36028797018963968 = of_int 7205759403792794 * pow2 (-4 - 52)"
    by (simp add: pow2_def)
qed (simp_all add: pow2_def)

lemma add_0_0_3: "js_add (Fin (0)) (Fin (5404319552844595 / 18014398509481984)) = Fin (5404319552844595 / 18014398509481984)"
proof (rule js_add_Fin_eqI)
  show "round_half_even ((0 + 5404319552844595 / 18014398509481984) / pow2 (-2 - 52)) = 5404319552844595"
    by (rule round_half_even_eqI) (simp_all add: pow2_def)
  show "5404319552844595 / 18014398509481984 = of_int 5404319552844595 * pow2 (-2 - 52)"
    by (simp add: pow2_def)
qed (simp_all add: pow2_def)

lemma columnMap_tenths:
  "build_columnMap [''Teacher ID'', ''Gross Total'', ''Net Pay''] GrossTotal = Some 1"
  by (simp add: build_columnMap_def classify_def text_eval)

lemma gross_tenths:
  "map grossSalary (processDataForLocalStorage clk tenths_grid mo yr) =
     [Fin (3602879701896397 / 36028797018963968), Fin (3602879701896397 / 18014398509481984), Fin (5404319552844595 / 18014398509481984)]"
  by (simp add: processDataForLocalStorage_def tenths_grid_def make_record_def number_cell_def
      cell_def parseFloat_cell_def columnMap_tenths parseFloat_tenths or_zero_def)

lemma totalGross_maps: "totalGross (make_summary rs) = foldl js_add (Fin 0) (map grossSalary rs)"
  by (simp add: make_summary_maps)

lemma totalGross_tenths:
  "totalGross (make_summary (processDataForLocalStorage sample_clock tenths_grid ''January'' ''2025'')) = Fin (1351079888211149 / 2251799813685248)"
  by (simp only: totalGross_maps gross_tenths foldl.simps add_0_0_1 add_0_1_0_2 add_0_1_0_2_0_3)

lemma totalGross_tenths_rev:
  "totalGross (make_summary (rev (processDataForLocalStorage sample_clock tenths_grid ''January'' ''2025''))) = Fin (5404319552844595 / 9007199254740992)"
  by (simp only: totalGross_maps rev_map[symmetric] gross_tenths rev.simps append.simps foldl.simps
      add_0_0_3 add_0_3_0_2 add_0_3_0_2_0_1)

text \<open>
  C9, as stated, fails: the sums are additions of doubles from left to right, and a
  permutation of the records can change a sum. The gross totals 0.1, 0.2 and 0.3 add up to
  0.6000000000000001 in this order and to 0.6 in the reverse order.
\<close>

theorem C9_order_counterexample:
  "mset (rev (processDataForLocalStorage sample_clock tenths_grid ''January'' ''2025'')) = mset (processDataForLocalStorage sample_clock tenths_grid ''January'' ''2025'')
   \<and> totalGross (make_summary (processDataForLocalStorage sample_clock tenths_grid ''January'' ''2025'')) = Fin (5404319552844596 / 2 ^ 53)
   \<and> totalGross (make_summary (rev (processDataForLocalStorage sample_clock tenths_grid ''January'' ''2025''))) = Fin (5404319552844595 / 2 ^ 53)
   \<and> totalGross (make_summary (rev (processDataForLocalStorage sample_clock tenths_grid ''January'' ''2025''))) \<noteq> totalGross (make_summary (processDataForLocalStorage sample_clock tenths_grid ''January'' ''2025''))"
  by (simp add: totalGross_tenths totalGross_tenths_rev)

lemma to_double_numeral:
  "numeral k \<le> (2::int) ^ 53 \<Longrightarrow> to_double (numeral k) = Fin (numeral k)"
  using to_double_small_int[of "numeral k"] by simp

lemma parseFloat_whole_samples:
  "parseFloat ''73000'' = Fin 73000" "parseFloat ''12500'' = Fin 12500" "parseFloat ''60500'' = Fin 60500"
  "parseFloat ''65500'' = Fin 65500" "parseFloat ''10600'' = Fin 10600" "parseFloat ''54900'' = Fin 54900"
  by (simp_all add: num_eval to_double_numeral)

lemma columnMap_whole:
  "build_columnMap [''Teacher ID'', ''Gross Total'', ''Total Deductions'', ''Net Pay''] GrossTotal = Some 1"
  "build_columnMap [''Teacher ID'', ''Gross Total'', ''Total Deductions'', ''Net Pay''] TotalDeductions = Some 2"
  "build_columnMap [''Teacher ID'', ''Gross Total'', ''Total Deductions'', ''Net Pay''] NetPay = Some 3"
  by (simp_all add: build_columnMap_def classify_def text_eval)

lemma amounts_whole_grid:
  "map grossSalary (processDataForLocalStorage clk whole_grid mo yr) = [Fin 73000, Fin 65500]"
  "map totalDeductions (processDataForLocalStorage clk whole_grid mo yr) = [Fin 12500, Fin 10600]"
  "map netPay (processDataForLocalStorage clk whole_grid mo yr) = [Fin 60500, Fin 54900]"
  by (simp_all add: processDataForLocalStorage_def whole_grid_def make_record_def number_cell_def
      cell_def parseFloat_cell_def columnMap_whole parseFloat_whole_samples or_zero_def)

text \<open>
  C9, amended. The summary depends on the grid alone: computed again on the batch that a
  second run of the normalizer makes of the same grid (as the fallback path does), it has
  the same totals, whatever the clock readings. totalRecords is the same for every
  permutation of the record list. Each sum is the addition of doubles from left to right,
  starting from 0; when the summed amounts are whole numbers whose absolute values add up to
  at most 2^53, nothing is rounded, the sum is the exact one and every permutation of the
  records gives the same summary.
\<close>

theorem C9_summary:
  "make_summary (processDataForLocalStorage clk1 g mo yr)
      = make_summary (processDataForLocalStorage clk2 g mo yr)
   \<and> (mset rs' = mset rs \<longrightarrow> totalRecords (make_summary rs') = totalRecords (make_summary rs))
   \<and> (mset rs' = mset rs
        \<and> list_all whole_amount (map grossSalary rs)
        \<and> sum_list (map (\<lambda>x. \<bar>amount x\<bar>) (map grossSalary rs)) \<le> 2 ^ 53
        \<and> list_all whole_amount (map totalDeductions rs)
        \<and> sum_list (map (\<lambda>x. \<bar>amount x\<bar>) (map totalDeductions rs)) \<le> 2 ^ 53
        \<and> list_all whole_amount (map netPay rs)
        \<and> sum_list (map (\<lambda>x. \<bar>amount x\<bar>) (map netPay rs)) \<le> 2 ^ 53
      \<longrightarrow> make_summary rs' = make_summary rs
          \<and> totalGross (make_summary rs) = Fin (sum_list (map amount (map grossSalary rs)))
          \<and> totalDeductionsSum (make_summary rs) = Fin (sum_list (map amount (map totalDeductions rs)))
          \<and> totalNet (make_summary rs) = Fin (sum_list (map amount (map netPay rs))))"
proof (intro conjI impI)
  show "make_summary (processDataForLocalStorage clk1 g mo yr)
      = make_summary (processDataForLocalStorage clk2 g mo yr)"
    by (rule summary_clock_independent)
next
  assume "mset rs' = mset rs"
  then have "length rs' = length rs" by (rule mset_eq_length)
  then show "totalRecords (make_summary rs') = totalRecords (make_summary rs)"
    by (simp add: make_summary_def)
next
  assume a: "mset rs' = mset rs
        \<and> list_all whole_amount (map grossSalary rs)
        \<and> sum_list (map (\<lambda>x. \<bar>amount x\<bar>) (map grossSalary rs)) \<le> 2 ^ 53
        \<and> list_all whole_amount (map totalDeductions rs)
        \<and> sum_list (map (\<lambda>x. \<bar>amount x\<bar>) (map totalDeductions rs)) \<le> 2 ^ 53
        \<and> list_all whole_amount (map netPay rs)
        \<and> sum_list (map (\<lambda>x. \<bar>amount x\<bar>) (map netPay rs)) \<le> 2 ^ 53"
  note m = a[THEN conjunct1]
    and wg = a[THEN conjunct2, THEN conjunct1]
    and sg = a[THEN conjunct2, THEN conjunct2, THEN conjunct1]
    and wd = a[THEN conjunct2, THEN conjunct2, THEN conjunct2, THEN conjunct1]
    and sd = a[THEN conjunct2, THEN conjunct2, THEN conjunct2, THEN conjunct2, THEN conjunct1]
    and wn = a[THEN conjunct2, THEN conjunct2, THEN conjunct2, THEN conjunct2, THEN conjunct2, THEN conjunct1]
    and sn = a[THEN conjunct2, THEN conjunct2, THEN conjunct2, THEN conjunct2, THEN conjunct2, THEN conjunct2]
  have len: "length rs' = length rs" using m by (rule mset_eq_length)
  have pg: "mset (map grossSalary rs') = mset (map grossSalary rs)" using m by simp
  have pd: "mset (map totalDeductions rs') = mset (map totalDeductions rs)" using m by simp
  have pn: "mset (map netPay rs') = mset (map netPay rs)" using m by simp
  have g: "foldl js_add (Fin 0) (map grossSalary rs') = foldl js_add (Fin 0) (map grossSalary rs)"
    by (rule foldl_js_add_perm[OF pg wg sg])
  have d: "foldl js_add (Fin 0) (map totalDeductions rs') = foldl js_add (Fin 0) (map totalDeductions rs)"
    by (rule foldl_js_add_perm[OF pd wd sd])
  have n: "foldl js_add (Fin 0) (map netPay rs') = foldl js_add (Fin 0) (map netPay rs)"
    by (rule foldl_js_add_perm[OF pn wn sn])
  show "make_summary rs' = make_summary rs"
    by (simp add: make_summary_maps len g d n)
  have z: "\<bar>0::rat\<bar> = 0" "of_int \<lfloor>0::rat\<rfloor> = (0::rat)" by simp_all
  have eg: "foldl js_add (Fin 0) (map grossSalary rs) = Fin (0 + sum_list (map amount (map grossSalary rs)))"
    by (rule foldl_js_add_exact[OF wg]) (use sg in simp_all)
  have ed: "foldl js_add (Fin 0) (map totalDeductions rs) = Fin (0 + sum_list (map amount (map totalDeductions rs)))"
    by (rule foldl_js_add_exact[OF wd]) (use sd in simp_all)
  have en: "foldl js_add (Fin 0) (map netPay rs) = Fin (0 + sum_list (map amount (map netPay rs)))"
    by (rule foldl_js_add_exact[OF wn]) (use sn in simp_all)
  show "totalGross (make_summary rs) = Fin (sum_list (map amount (map grossSalary rs)))"
    by (simp add: make_summary_maps eg)
  show "totalDeductionsSum (make_summary rs) = Fin (sum_list (map amount (map totalDeductions rs)))"
    by (simp add: make_summary_maps ed)
  show "totalNet (make_summary rs) = Fin (sum_list (map amount (map netPay rs)))"
    by (simp add: make_summary_maps en)
qed



theorem C9_summary_witness:
  "mset (rev (processDataForLocalStorage sample_clock whole_grid ''January'' ''2025''))
      = mset (processDataForLocalStorage sample_clock whole_grid ''January'' ''2025'')
   \<and> list_all whole_amount (map grossSalary (processDataForLocalStorage sample_clock whole_grid ''January'' ''2025''))
   \<and> make_summary (rev (processDataForLocalStorage sample_clock whole_grid ''January'' ''2025''))
      = make_summary (processDataForLocalStorage sample_clock whole_grid ''January'' ''2025'')
   \<and> totalRecords (make_summary (processDataForLocalStorage sample_clock whole_grid ''January'' ''2025'')) = 2
   \<and> totalGross (make_summary (processDataForLocalStorage sample_clock whole_grid ''January'' ''2025'')) = Fin 138500
   \<and> totalDeductionsSum (make_summary (processDataForLocalStorage sample_clock whole_grid ''January'' ''2025'')) = Fin 23100
   \<and> totalNet (make_summary (processDataForLocalStorage sample_clock whole_grid ''January'' ''2025'')) = Fin 115400"
proof -
  let ?rs = "processDataForLocalStorage sample_clock whole_grid ''January'' ''2025''"
  have h: "mset (rev ?rs) = mset ?rs
        \<and> list_all whole_amount (map grossSalary ?rs)
        \<and> sum_list (map (\<lambda>x. \<bar>amount x\<bar>) (map grossSalary ?rs)) \<le> 2 ^ 53
        \<and> list_all whole_amount (map totalDeductions ?rs)
        \<and> sum_list (map (\<lambda>x. \<bar>amount x\<bar>) (map totalDeductions ?rs)) \<le> 2 ^ 53
        \<and> list_all whole_amount (map netPay ?rs)
        \<and> sum_list (map (\<lambda>x. \<bar>amount x\<bar>) (map netPay ?rs)) \<le> 2 ^ 53"
    by (simp add: amounts_whole_grid whole_amount_def amount_def)
  have len: "length ?rs = 2"
    using arg_cong[OF amounts_whole_grid(1)[of sample_clock "''January''" "''2025''"], of length] by simp
  from C9_summary[of sample_clock whole_grid "''January''" "''2025''" sample_clock "rev ?rs" ?rs,
      THEN conjunct2, THEN conjunct2, rule_format, OF h] h len
  show ?thesis
    by (simp add: amounts_whole_grid amount_def make_summary_def)
qed

section \<open>Coercion of currency cells\<close>




















end
